theory Spec2Isabelle
  imports Complex_Main "HOL-Library.AList"
begin

section \<open>JavaScript values\<close>

text \<open>
  The values that reach \<^verbatim>\<open>src/index.js\<close> from outside are form fields (strings) and
  whatever \<^verbatim>\<open>JSON.parse\<close> returns. A number is kept as a rational: the program only
  ever tests it for truthiness and hands it on. The pairs of \<open>JObj\<close> are the own
  properties of the parsed object, in the order in which JavaScript enumerates them.
  A \<open>string\<close> is the sequence of code units of the JavaScript string.
\<close>

datatype jsval =
    JUndefined
  | JNull
  | JBool bool
  | JNum rat
  | JStr string
  | JArr "jsval list"
  | JObj "(string \<times> jsval) list"

datatype js_error = TypeError | SyntaxError | UpstreamError | BuilderError

text \<open>\<^verbatim>\<open>if (v)\<close> and \<^verbatim>\<open>!v\<close>: JavaScript's ToBoolean.\<close>

fun truthy :: "jsval \<Rightarrow> bool" where
  "truthy JUndefined = False"
| "truthy JNull = False"
| "truthy (JBool b) = b"
| "truthy (JNum n) = (n \<noteq> 0)"
| "truthy (JStr s) = (s \<noteq> [])"
| "truthy (JArr xs) = True"
| "truthy (JObj ps) = True"

text \<open>
  A request body, as the \<^verbatim>\<open>express.urlencoded\<close> and \<^verbatim>\<open>express.json\<close> parsers leave it in
  \<^verbatim>\<open>req.body\<close>: an object in which a field is absent or holds a string, as in the form
  posts of the telephony service. \<open>b name\<close> is \<^verbatim>\<open>req.body.name\<close>, with \<open>None\<close> for
  \<^verbatim>\<open>undefined\<close>.
\<close>

type_synonym body = "string \<rightharpoonup> string"

definition as_value :: "string option \<Rightarrow> jsval" where
  "as_value f = (case f of None \<Rightarrow> JUndefined | Some s \<Rightarrow> JStr s)"

text \<open>
  ToString on such a field: what a property key (\<^verbatim>\<open>conversationState[callSid]\<close>) and a
  template literal (\<^verbatim>\<open>`${ngrokUrl}/voice`\<close>) make of it.
\<close>

definition to_string :: "string option \<Rightarrow> string" where
  "to_string f = (case f of None \<Rightarrow> ''undefined'' | Some s \<Rightarrow> s)"

text \<open>
  Property read \<^verbatim>\<open>v.name\<close> on a parsed value, for the names \<^verbatim>\<open>extractedData\<close>,
  \<^verbatim>\<open>responseText\<close> and \<^verbatim>\<open>isComplete\<close>, which no built-in prototype defines: reading
  from \<^verbatim>\<open>null\<close> throws, an object gives its own property, everything else \<^verbatim>\<open>undefined\<close>.
\<close>

fun get_field :: "jsval \<Rightarrow> string \<Rightarrow> js_error + jsval" where
  "get_field JNull name = Inl TypeError"
| "get_field JUndefined name = Inl TypeError"
| "get_field (JObj ps) name = Inr (case map_of ps name of None \<Rightarrow> JUndefined | Some v \<Rightarrow> v)"
| "get_field v name = Inr JUndefined"

section \<open>Plain objects used as dictionaries\<close>

text \<open>
  \<^verbatim>\<open>collectedData\<close> starts as the literal \<^verbatim>\<open>{}\<close> and is written only by \<^verbatim>\<open>Object.assign\<close>.
  Its own properties are kept in the order of their creation (the order in which
  JavaScript enumerates them, index-like keys first, is a function of it); its prototype
  is \<^verbatim>\<open>Object.prototype\<close> until an assignment to the key \<^verbatim>\<open>__proto__\<close> replaces it.
\<close>

datatype prototype = Object_prototype | Null_prototype | Value_prototype jsval

record jsobj =
  props :: "(string \<times> jsval) list"
  proto :: prototype

definition empty_object :: jsobj where
  "empty_object = \<lparr>props = [], proto = Object_prototype\<rparr>"

text \<open>
  Whether an assignment to \<^verbatim>\<open>__proto__\<close> that finds no own property reaches the accessor
  of \<^verbatim>\<open>Object.prototype\<close>: not through a null prototype, and not through a parsed
  object that has an own property of that name.
\<close>

fun reaches_proto_setter :: "prototype \<Rightarrow> bool" where
  "reaches_proto_setter Object_prototype = True"
| "reaches_proto_setter Null_prototype = False"
| "reaches_proto_setter (Value_prototype (JObj ps)) = (''__proto__'' \<notin> fst ` set ps)"
| "reaches_proto_setter (Value_prototype v) = True"

text \<open>The \<^verbatim>\<open>__proto__\<close> setter: an object or \<^verbatim>\<open>null\<close> becomes the prototype, anything else is ignored.\<close>

fun set_prototype :: "jsobj \<Rightarrow> jsval \<Rightarrow> jsobj" where
  "set_prototype obj JNull = obj\<lparr>proto := Null_prototype\<rparr>"
| "set_prototype obj (JObj ps) = obj\<lparr>proto := Value_prototype (JObj ps)\<rparr>"
| "set_prototype obj (JArr xs) = obj\<lparr>proto := Value_prototype (JArr xs)\<rparr>"
| "set_prototype obj v = obj"

text \<open>
  The assignment \<^verbatim>\<open>obj[k] = v\<close> that \<^verbatim>\<open>Object.assign\<close> performs for each key: an own
  property is overwritten in place, \<^verbatim>\<open>__proto__\<close> goes to the setter when it is reachable,
  and any other key becomes a new own property at the end.
\<close>

definition js_set :: "jsobj \<Rightarrow> string \<Rightarrow> jsval \<Rightarrow> jsobj" where
  "js_set obj k v =
     (if k \<in> fst ` set (props obj) then obj\<lparr>props := AList.update k v (props obj)\<rparr>
      else if k = ''__proto__'' \<and> reaches_proto_setter (proto obj) then set_prototype obj v
      else obj\<lparr>props := props obj @ [(k, v)]\<rparr>)"

text \<open>
  The read \<^verbatim>\<open>obj.name\<close> for the column names \<^verbatim>\<open>full_name\<close>, \<^verbatim>\<open>address\<close> and
  \<^verbatim>\<open>health_condition\<close>, which neither \<^verbatim>\<open>Object.prototype\<close> nor \<^verbatim>\<open>Array.prototype\<close>
  defines: the own property, else the one inherited from a parsed object, else \<^verbatim>\<open>undefined\<close>.
\<close>

fun inherited :: "prototype \<Rightarrow> string \<Rightarrow> jsval" where
  "inherited (Value_prototype (JObj ps)) name =
     (case map_of ps name of None \<Rightarrow> JUndefined | Some v \<Rightarrow> v)"
| "inherited p name = JUndefined"

definition js_get :: "jsobj \<Rightarrow> string \<Rightarrow> jsval" where
  "js_get obj name =
     (case map_of (props obj) name of None \<Rightarrow> inherited (proto obj) name | Some v \<Rightarrow> v)"

text \<open>Decimal rendering of an array index.\<close>

definition digit :: "nat \<Rightarrow> char" where
  "digit n = ''0123456789'' ! (n mod 10)"

function decimal :: "nat \<Rightarrow> string" where
  "decimal n = (if n < 10 then [digit n] else decimal (n div 10) @ [digit n])"
  by pat_completeness auto
termination
  by (relation "measure id") auto

text \<open>
  The own enumerable properties that \<^verbatim>\<open>Object.assign\<close> copies from its source: those of
  an object, the elements of an array and the code units of a string under their indices,
  and nothing from \<^verbatim>\<open>undefined\<close>, \<^verbatim>\<open>null\<close>, a boolean or a number.
\<close>

fun own_enumerable :: "jsval \<Rightarrow> (string \<times> jsval) list" where
  "own_enumerable (JObj ps) = ps"
| "own_enumerable (JArr xs) = zip (map decimal [0..<length xs]) xs"
| "own_enumerable (JStr s) = zip (map decimal [0..<length s]) (map (\<lambda>c. JStr [c]) s)"
| "own_enumerable v = []"

definition object_assign :: "jsobj \<Rightarrow> jsval \<Rightarrow> jsobj" where
  "object_assign target source = foldl (\<lambda>obj (k, v). js_set obj k v) target (own_enumerable source)"

section \<open>The conversation store\<close>

record message =
  role :: string
  content :: jsval

record conversation =
  history :: "message list"
  collectedData :: jsobj

text \<open>
  \<^verbatim>\<open>const conversationState = {}\<close>: the own properties of that object, one per call
  identifier. Being a plain object it also inherits the properties of
  \<^verbatim>\<open>Object.prototype\<close>, which a read \<^verbatim>\<open>conversationState[callSid]\<close> finds when the
  object has no own property of that name.
\<close>

type_synonym store = "string \<rightharpoonup> conversation"

definition object_prototype_names :: "string list" where
  "object_prototype_names =
     [''constructor'', ''__defineGetter__'', ''__defineSetter__'', ''hasOwnProperty'',
      ''__lookupGetter__'', ''__lookupSetter__'', ''isPrototypeOf'', ''propertyIsEnumerable'',
      ''toString'', ''valueOf'', ''__proto__'', ''toLocaleString'']"

datatype lookup = Entry conversation | Builtin | Missing

text \<open>
  \<^verbatim>\<open>conversationState[callSid]\<close>: an own entry, else a function or object inherited from
  \<^verbatim>\<open>Object.prototype\<close> (truthy, and without a \<^verbatim>\<open>history\<close> or \<^verbatim>\<open>collectedData\<close>
  property), else \<^verbatim>\<open>undefined\<close>.
\<close>

definition store_get :: "store \<Rightarrow> string \<Rightarrow> lookup" where
  "store_get S callSid =
     (case S callSid of
        Some c \<Rightarrow> Entry c
      | None \<Rightarrow> if callSid \<in> set object_prototype_names then Builtin else Missing)"

text \<open>Lines 48 to 50: \<^verbatim>\<open>if (!conversationState[callSid]) conversationState[callSid] = {...}\<close>.\<close>

definition get_or_create :: "store \<Rightarrow> string \<Rightarrow> store" where
  "get_or_create S callSid =
     (if store_get S callSid = Missing
      then S(callSid \<mapsto> \<lparr>history = [], collectedData = empty_object\<rparr>)
      else S)"

text \<open>
  \<^verbatim>\<open>conversationState[callSid].history.push(m)\<close>: on anything but an own entry
  \<^verbatim>\<open>.history\<close> is \<^verbatim>\<open>undefined\<close> (or the read itself fails) and the call throws.
\<close>

definition push_message :: "store \<Rightarrow> string \<Rightarrow> message \<Rightarrow> js_error + store" where
  "push_message S callSid m =
     (case store_get S callSid of
        Entry c \<Rightarrow> Inr (S(callSid \<mapsto> c\<lparr>history := history c @ [m]\<rparr>))
      | Builtin \<Rightarrow> Inl TypeError
      | Missing \<Rightarrow> Inl TypeError)"

text \<open>\<^verbatim>\<open>delete conversationState[callSid]\<close>.\<close>

definition remove :: "store \<Rightarrow> string \<Rightarrow> store" where
  "remove S callSid = S(callSid := None)"

section \<open>Collaborators and effects\<close>

text \<open>
  The TwiML document a turn answers with: the verbs in the order in which the handler
  adds them. \<open>Unhandled\<close> stands for a handler whose promise rejects: this code then
  sends no document.
\<close>

datatype verb =
    Say jsval
  | Hangup
  | Gather "(string \<times> string) list" "verb list"

datatype reply = Twiml "verb list" | Unhandled js_error

text \<open>
  What one webhook turn meets outside \<^verbatim>\<open>src/index.js\<close>:
  \<^item> the built-in \<^verbatim>\<open>JSON.stringify\<close> on \<^verbatim>\<open>collectedData\<close>;
  \<^item> the outcome of lines 57 and 58: the completion call rejects, or its result has no
    \<^verbatim>\<open>choices[0].message.content\<close>, or \<^verbatim>\<open>JSON.parse\<close> throws on that content, or it returns
    a value;
  \<^item> whether \<^verbatim>\<open>pool.query\<close> resolves;
  \<^item> what the telephony library's \<^verbatim>\<open>twiml.say\<close> (line 67) and \<^verbatim>\<open>gather.say\<close> (line 74)
    do with the \<^verbatim>\<open>responseText\<close> they are given: throw (as they do on a text with a
    character that XML does not allow, or on an array), or add elements to the document
    (a \<open>Say\<close> of the text; nothing for \<^verbatim>\<open>null\<close>).
  The other builder calls have constant arguments (the attributes of the gather, the
  apology text, the hangup) and are taken to add their element and return.
\<close>

datatype completion = Rejects | No_content | Not_json | Parsed jsval

datatype db_result = Db_ok | Db_fails

record env =
  JSON_stringify :: "jsobj \<Rightarrow> string"
  completion :: completion
  db :: db_result
  twiml_say :: "jsval \<Rightarrow> js_error + verb list"
  gather_say :: "jsval \<Rightarrow> js_error + verb list"

record completion_request =
  model :: string
  messages :: "message list"
  response_format :: string

record call_request =
  url :: string
  to :: string
  from_number :: "string option"

text \<open>
  The calls a handler makes on its collaborators and the lines it logs, in the order in
  which it makes them, together with the one \<^verbatim>\<open>delete\<close> on the store. Of a log line the
  text is kept; the error value printed after the text of a \<^verbatim>\<open>console.error\<close> is not.
\<close>

datatype event =
    Completions_create completion_request
  | Pool_query string "jsval list"
  | Calls_create call_request
  | Store_delete string
  | Console_log string
  | Console_log_state jsobj
  | Console_error string

section \<open>The completion request\<close>

definition systemPrompt :: string where
  \<open>systemPrompt =
     ''\<newline>'' @
     ''        You are 'Asha', a friendly voice agent for the ASHA Sahayak program. Your task is to collect patient health information.\<newline>'' @
     ''        \<newline>'' @
     ''        Follow this script precisely:\<newline>'' @
     ''        1. If full_name is missing, introduce yourself and ask for it.\<newline>'' @
     ''        2. If age is missing, ask for it.\<newline>'' @
     ''        3. If gender is missing, ask for it.\<newline>'' @
     ''        // ... (rest of your detailed script from before) ...\<newline>'' @
     ''        10. When all information is collected, say "Thank you for answering. We have recorded your details." and set isComplete to true.\<newline>'' @
     ''\<newline>'' @
     ''        Rules:\<newline>'' @
     ''        - Ask ONLY ONE question at a time.\<newline>'' @
     ''        - Your response MUST be a valid JSON object with three keys: "responseText", "extractedData", and "isComplete".\<newline>'' @
     ''    ''\<close>

definition reminder :: "string \<Rightarrow> string" where
  \<open>reminder snapshot =
     ''Current collected data: '' @ snapshot @
     ''. Now, determine the next question based on the script and the user's last answer. Generate the next JSON response.''\<close>

text \<open>
  \<^verbatim>\<open>getLlmResponse\<close>, lines 87 to 113: the argument of
  \<^verbatim>\<open>openrouter.chat.completions.create\<close>. Spreading \<^verbatim>\<open>state.history\<close> throws when
  \<^verbatim>\<open>state\<close> is not an own entry of the store, before anything is sent.
\<close>

definition getLlmResponse :: "env \<Rightarrow> store \<Rightarrow> string \<Rightarrow> js_error + completion_request" where
  "getLlmResponse e S callSid =
     (case store_get S callSid of
        Entry state \<Rightarrow>
          Inr \<lparr>model = ''google/gemini-flash-1.5'',
               messages =
                 [\<lparr>role = ''system'', content = JStr systemPrompt\<rparr>] @
                 history state @
                 [\<lparr>role = ''system'',
                   content = JStr (reminder (JSON_stringify e (collectedData state)))\<rparr>],
               response_format = ''json_object''\<rparr>
      | Builtin \<Rightarrow> Inl TypeError
      | Missing \<Rightarrow> Inl TypeError)"

section \<open>The persistence call\<close>

definition query :: string where
  \<open>query =
     ''\<newline>'' @
     ''        INSERT INTO patients (full_name, phone_number, address, health_condition)\<newline>'' @
     ''        VALUES ($1, $2, $3, .env$4)\<newline>'' @
     ''        ON CONFLICT (phone_number) DO UPDATE SET\<newline>'' @
     ''            full_name = EXCLUDED.full_name,\<newline>'' @
     ''            address = EXCLUDED.address,\<newline>'' @
     ''            health_condition = EXCLUDED.health_condition,\<newline>'' @
     ''            created_at = NOW();\<newline>'' @
     ''    ''\<close>

text \<open>
  \<^verbatim>\<open>savePatientData\<close>, lines 116 to 133: one \<^verbatim>\<open>pool.query\<close>, whose failure is caught and
  logged, so the function itself never throws.
\<close>

definition savePatientData :: "env \<Rightarrow> string option \<Rightarrow> jsobj \<Rightarrow> event list" where
  "savePatientData e phoneNumber data =
     (let values = [js_get data ''full_name'', as_value phoneNumber,
                    js_get data ''address'', js_get data ''health_condition'']
      in Pool_query query values #
         (case db e of
            Db_ok \<Rightarrow> [Console_log (''Successfully saved/updated data for '' @ to_string phoneNumber)]
          | Db_fails \<Rightarrow> [Console_error ''Error saving data to database:'']))"

section \<open>The voice webhook\<close>

record response =
  responseText :: jsval
  extractedData :: jsval
  isComplete :: jsval

text \<open>
  The three property reads on \<^verbatim>\<open>responseData\<close> (lines 60, 61 and 65). They read one
  unchanging value, so either the first of them throws or none does.
\<close>

definition read_response :: "jsval \<Rightarrow> js_error + response" where
  "read_response responseData =
     (case get_field responseData ''extractedData'' of
        Inl err \<Rightarrow> Inl err
      | Inr x \<Rightarrow>
          (case get_field responseData ''responseText'' of
             Inl err \<Rightarrow> Inl err
           | Inr t \<Rightarrow>
               (case get_field responseData ''isComplete'' of
                  Inl err \<Rightarrow> Inl err
                | Inr c \<Rightarrow> Inr \<lparr>responseText = t, extractedData = x, isComplete = c\<rparr>)))"

definition apology :: string where
  "apology = ''I apologize, but I encountered an error. Please try again later.''"

definition gather_attributes :: "(string \<times> string) list" where
  "gather_attributes =
     [(''input'', ''speech''), (''speechTimeout'', ''auto''), (''action'', ''/voice''), (''method'', ''POST'')]"

text \<open>
  Lines 45 to 54, before the \<^verbatim>\<open>try\<close>: the state of the call is created when the store
  has nothing under the call identifier, and the caller's words are pushed when there
  are any.
\<close>

definition before_try :: "store \<Rightarrow> body \<Rightarrow> js_error + store" where
  "before_try S b =
     (let callSid = to_string (b ''CallSid'');
          userInput = as_value (b ''SpeechResult'');
          S0 = get_or_create S callSid
      in if truthy userInput
         then push_message S0 callSid \<lparr>role = ''user'', content = userInput\<rparr>
         else Inr S0)"

text \<open>
  Lines 57 to 63, the exchange with the completion service and its recording: the
  events caused, and either the exception thrown or the store after the two updates
  together with the fields read from the answer. Every exception comes before the
  first update. A turn runs without another turn in between.
\<close>

definition exchange :: "env \<Rightarrow> store \<Rightarrow> string \<Rightarrow> event list \<times> (js_error + store \<times> response)" where
  "exchange e S callSid =
     (case getLlmResponse e S callSid of
        Inl err \<Rightarrow> ([], Inl err)
      | Inr request \<Rightarrow>
          (case completion e of
             Rejects \<Rightarrow> ([Completions_create request], Inl UpstreamError)
           | No_content \<Rightarrow> ([Completions_create request], Inl TypeError)
           | Not_json \<Rightarrow> ([Completions_create request], Inl SyntaxError)
           | Parsed responseData \<Rightarrow>
               (case (store_get S callSid, read_response responseData) of
                  (Entry c, Inr r) \<Rightarrow>
                    (let c' = c\<lparr>collectedData := object_assign (collectedData c) (extractedData r),
                                history := history c @ [\<lparr>role = ''assistant'', content = responseText r\<rparr>]\<rparr>
                     in ([Completions_create request, Console_log_state (collectedData c')],
                         Inr (S(callSid \<mapsto> c'), r)))
                | (Entry c, Inl err) \<Rightarrow> ([Completions_create request], Inl err)
                | (Builtin, x) \<Rightarrow> ([Completions_create request], Inl TypeError)
                | (Missing, x) \<Rightarrow> ([Completions_create request], Inl TypeError))))"

text \<open>
  The body of the \<^verbatim>\<open>try\<close> block, lines 57 to 75: the events it causes, the store it
  leaves, the verbs it has put into the document, and the exception it throws, if any.
  After line 63 the two \<^verbatim>\<open>say\<close> calls can throw: \<^verbatim>\<open>twiml.say\<close> after the persistence
  call and before the \<^verbatim>\<open>delete\<close>, \<^verbatim>\<open>gather.say\<close> after \<^verbatim>\<open>twiml.gather\<close> has added its
  element.
\<close>

record attempt =
  caused :: "event list"
  left :: store
  document :: "verb list"
  thrown :: "js_error option"

definition voice_try :: "env \<Rightarrow> store \<Rightarrow> body \<Rightarrow> string \<Rightarrow> attempt" where
  "voice_try e S b callSid =
     (case exchange e S callSid of
        (evs, Inl err) \<Rightarrow> \<lparr>caused = evs, left = S, document = [], thrown = Some err\<rparr>
      | (evs, Inr (S', r)) \<Rightarrow>
          if truthy (isComplete r)
          then (case store_get S' callSid of
                  Entry c \<Rightarrow>
                    (case twiml_say e (responseText r) of
                       Inl err \<Rightarrow>
                         \<lparr>caused = evs @ savePatientData e (b ''To'') (collectedData c),
                          left = S', document = [], thrown = Some err\<rparr>
                     | Inr said \<Rightarrow>
                         \<lparr>caused = evs @ savePatientData e (b ''To'') (collectedData c) @
                                   [Store_delete callSid],
                          left = remove S' callSid,
                          document = said @ [Hangup],
                          thrown = None\<rparr>)
                | Builtin \<Rightarrow> \<lparr>caused = evs, left = S', document = [], thrown = Some TypeError\<rparr>
                | Missing \<Rightarrow> \<lparr>caused = evs, left = S', document = [], thrown = Some TypeError\<rparr>)
          else (case gather_say e (responseText r) of
                  Inl err \<Rightarrow>
                    \<lparr>caused = evs, left = S', document = [Gather gather_attributes []],
                     thrown = Some err\<rparr>
                | Inr said \<Rightarrow>
                    \<lparr>caused = evs, left = S', document = [Gather gather_attributes said],
                     thrown = None\<rparr>))"

record outcome =
  store :: store
  reply :: reply
  events :: "event list"

text \<open>
  The handler of \<^verbatim>\<open>POST /voice\<close>, lines 43 to 84. The \<^verbatim>\<open>push\<close> of the caller's words
  stands before the \<^verbatim>\<open>try\<close>: an exception there leaves the handler without a response.
  The \<^verbatim>\<open>catch\<close> adds the apology and the hangup to whatever the document holds by then.
\<close>

definition voice :: "env \<Rightarrow> store \<Rightarrow> body \<Rightarrow> outcome" where
  "voice e S b =
     (case before_try S b of
        Inl err \<Rightarrow>
          \<lparr>store = get_or_create S (to_string (b ''CallSid'')), reply = Unhandled err, events = []\<rparr>
      | Inr S1 \<Rightarrow>
          (let t = voice_try e S1 b (to_string (b ''CallSid'')) in
           case thrown t of
             None \<Rightarrow> \<lparr>store = left t, reply = Twiml (document t), events = caused t\<rparr>
           | Some err \<Rightarrow>
               \<lparr>store = left t,
                reply = Twiml (document t @ [Say (JStr apology), Hangup]),
                events = caused t @
                         [Console_error ''Error during LLM processing or TwiML generation:'']\<rparr>))"

section \<open>The call-initiation endpoint\<close>

datatype call_result = Call_created string | Call_fails string

record http_response =
  status :: nat
  json :: "(string \<times> jsval) list"

text \<open>
  The handler of \<^verbatim>\<open>POST /initiate-call\<close>, lines 137 to 158. \<open>twilioPhoneNumber\<close> is the
  environment variable of line 13 and \<open>placed\<close> what \<^verbatim>\<open>client.calls.create\<close> comes to:
  \<open>Call_created\<close> carries \<^verbatim>\<open>call.sid\<close> and \<open>Call_fails\<close>
  carries \<^verbatim>\<open>error.message\<close>.
\<close>

definition initiate_call :: "string option \<Rightarrow> call_result \<Rightarrow> body \<Rightarrow> http_response \<times> event list" where
  "initiate_call twilioPhoneNumber placed b =
     (let phoneNumber = b ''phoneNumber'';
          ngrokUrl = b ''ngrokUrl''
      in if \<not> truthy (as_value phoneNumber) \<or> \<not> truthy (as_value ngrokUrl)
         then (\<lparr>status = 400,
                json = [(''message'', JStr ''Both phoneNumber and ngrokUrl are required.'')]\<rparr>, [])
         else
           (let webhookUrl = to_string ngrokUrl @ ''/voice'';
                evs = [Console_log (''Request received. Attempting to call: '' @ to_string phoneNumber),
                       Console_log (''Using webhook URL: '' @ webhookUrl),
                       Calls_create \<lparr>url = webhookUrl, to = to_string phoneNumber,
                                     from_number = twilioPhoneNumber\<rparr>]
            in case placed of
                 Call_created sid \<Rightarrow>
                   (\<lparr>status = 200,
                     json = [(''message'', JStr ''Call has been successfully initiated!''),
                             (''callSid'', JStr sid)]\<rparr>,
                    evs @ [Console_log (''Call initiated successfully. Call SID: '' @ sid)])
               | Call_fails msg \<Rightarrow>
                   (\<lparr>status = 500,
                     json = [(''message'', JStr ''Failed to initiate call.''), (''error'', JStr msg)]\<rparr>,
                    evs @ [Console_error ''Error initiating call:''])))"

section \<open>Reading outcomes\<close>

text \<open>The calls of one kind among the events of a handler, in order.\<close>

fun completion_requests :: "event list \<Rightarrow> completion_request list" where
  "completion_requests [] = []"
| "completion_requests (Completions_create r # evs) = r # completion_requests evs"
| "completion_requests (ev # evs) = completion_requests evs"

fun pool_queries :: "event list \<Rightarrow> (string \<times> jsval list) list" where
  "pool_queries [] = []"
| "pool_queries (Pool_query q vs # evs) = (q, vs) # pool_queries evs"
| "pool_queries (ev # evs) = pool_queries evs"

fun calls_placed :: "event list \<Rightarrow> call_request list" where
  "calls_placed [] = []"
| "calls_placed (Calls_create c # evs) = c # calls_placed evs"
| "calls_placed (ev # evs) = calls_placed evs"

fun store_deletes :: "event list \<Rightarrow> string list" where
  "store_deletes [] = []"
| "store_deletes (Store_delete k # evs) = k # store_deletes evs"
| "store_deletes (ev # evs) = store_deletes evs"

text \<open>
  What the store holds for a call when a turn begins: the history and the data of its
  entry, or those of the fresh state that lines 48 to 50 create.
\<close>

definition known_history :: "store \<Rightarrow> string \<Rightarrow> message list" where
  "known_history S callSid = (case S callSid of None \<Rightarrow> [] | Some c \<Rightarrow> history c)"

definition known_data :: "store \<Rightarrow> string \<Rightarrow> jsobj" where
  "known_data S callSid = (case S callSid of None \<Rightarrow> empty_object | Some c \<Rightarrow> collectedData c)"

text \<open>The message that line 53 pushes, if it pushes one.\<close>

definition spoken :: "body \<Rightarrow> message list" where
  "spoken b =
     (if truthy (as_value (b ''SpeechResult''))
      then [\<lparr>role = ''user'', content = as_value (b ''SpeechResult'')\<rparr>]
      else [])"

text \<open>
  The state of the call after lines 45 to 54, and the request that
  \<^verbatim>\<open>getLlmResponse\<close> builds for a call in a given state.
\<close>

definition entered :: "store \<Rightarrow> body \<Rightarrow> conversation" where
  "entered S b =
     \<lparr>history = known_history S (to_string (b ''CallSid'')) @ spoken b,
      collectedData = known_data S (to_string (b ''CallSid''))\<rparr>"

definition request_for :: "env \<Rightarrow> conversation \<Rightarrow> completion_request" where
  "request_for e c =
     \<lparr>model = ''google/gemini-flash-1.5'',
      messages =
        [\<lparr>role = ''system'', content = JStr systemPrompt\<rparr>] @
        history c @
        [\<lparr>role = ''system'', content = JStr (reminder (JSON_stringify e (collectedData c)))\<rparr>],
      response_format = ''json_object''\<rparr>"

text \<open>The state of a call after lines 60 and 61 have recorded an answer.\<close>

definition recorded :: "conversation \<Rightarrow> response \<Rightarrow> conversation" where
  "recorded c r =
     \<lparr>history = history c @ [\<lparr>role = ''assistant'', content = responseText r\<rparr>],
      collectedData = object_assign (collectedData c) (extractedData r)\<rparr>"

text \<open>
  Reading the statement text: the expressions between \<^verbatim>\<open>VALUES (\<close> and the next closing
  parenthesis, separated by commas.
\<close>

fun after_marker :: "string \<Rightarrow> string \<Rightarrow> string" where
  "after_marker m [] = []"
| "after_marker m (c # cs) =
     (if take (length m) (c # cs) = m then drop (length m) (c # cs) else after_marker m cs)"

fun split_on :: "char \<Rightarrow> string \<Rightarrow> string list" where
  "split_on d [] = [[]]"
| "split_on d (c # cs) =
     (if c = d then [] # split_on d cs
      else (case split_on d cs of [] \<Rightarrow> [[c]] | w # ws \<Rightarrow> (c # w) # ws))"

definition values_clause :: "string \<Rightarrow> string list" where
  "values_clause q =
     map (dropWhile (\<lambda>c. c = CHR '' ''))
       (split_on CHR '','' (takeWhile (\<lambda>c. c \<noteq> CHR '')'') (after_marker ''VALUES ('' q)))"

section \<open>Facts about the handlers\<close>

lemma completion_requests_append:
  "completion_requests (xs @ ys) = completion_requests xs @ completion_requests ys"
  by (induction xs rule: completion_requests.induct) simp_all

lemma pool_queries_append:
  "pool_queries (xs @ ys) = pool_queries xs @ pool_queries ys"
  by (induction xs rule: pool_queries.induct) simp_all

lemma store_deletes_append:
  "store_deletes (xs @ ys) = store_deletes xs @ store_deletes ys"
  by (induction xs rule: store_deletes.induct) simp_all

lemma savePatientData_calls:
  "completion_requests (savePatientData e p d) = []"
  "store_deletes (savePatientData e p d) = []"
  "pool_queries (savePatientData e p d) =
     [(query, [js_get d ''full_name'', as_value p, js_get d ''address'', js_get d ''health_condition''])]"
  by (cases "db e"; simp add: savePatientData_def)+

lemma before_try_entry:
  assumes "store_get S (to_string (b ''CallSid'')) \<noteq> Builtin"
  shows "before_try S b = Inr (S(to_string (b ''CallSid'') \<mapsto> entered S b))"
  using assms
  by (auto simp: before_try_def get_or_create_def store_get_def push_message_def known_history_def
      known_data_def spoken_def entered_def Let_def fun_upd_idem split: option.splits if_splits)

lemma before_try_builtin:
  assumes "store_get S (to_string (b ''CallSid'')) = Builtin"
  shows "before_try S b = (if spoken b = [] then Inr S else Inl TypeError)"
  using assms
  by (auto simp: before_try_def get_or_create_def store_get_def push_message_def spoken_def Let_def
      split: option.splits if_splits)

lemma getLlmResponse_entry:
  "getLlmResponse e (S(k \<mapsto> c)) k = Inr (request_for e c)"
  by (simp add: getLlmResponse_def store_get_def request_for_def)

lemma getLlmResponse_builtin:
  "store_get S k = Builtin \<Longrightarrow> getLlmResponse e S k = Inl TypeError"
  by (simp add: getLlmResponse_def)

lemma conversation_rebuilt:
  "(c::conversation)\<lparr>collectedData := d, history := h\<rparr> = \<lparr>history = h, collectedData = d\<rparr>"
  by (cases c) simp

lemma exchange_entry:
  "exchange e (S(k \<mapsto> c)) k =
     (case completion e of
        Rejects \<Rightarrow> ([Completions_create (request_for e c)], Inl UpstreamError)
      | No_content \<Rightarrow> ([Completions_create (request_for e c)], Inl TypeError)
      | Not_json \<Rightarrow> ([Completions_create (request_for e c)], Inl SyntaxError)
      | Parsed rd \<Rightarrow>
          (case read_response rd of
             Inl err \<Rightarrow> ([Completions_create (request_for e c)], Inl err)
           | Inr r \<Rightarrow>
               ([Completions_create (request_for e c),
                 Console_log_state (collectedData (recorded c r))],
                Inr (S(k \<mapsto> recorded c r), r))))"
  by (simp add: exchange_def getLlmResponse_entry store_get_def recorded_def conversation_rebuilt
      split: completion.splits sum.splits)

lemma spoken_cases:
  "b ''SpeechResult'' = Some u \<Longrightarrow> u \<noteq> [] \<Longrightarrow> spoken b = [\<lparr>role = ''user'', content = JStr u\<rparr>]"
  "b ''SpeechResult'' = None \<Longrightarrow> spoken b = []"
  "b ''SpeechResult'' = Some [] \<Longrightarrow> spoken b = []"
  by (simp_all add: spoken_def as_value_def)

lemma store_get_update: "store_get (S(k \<mapsto> c)) k = Entry c"
  by (simp add: store_get_def)

lemma exchange_builtin: "store_get S k = Builtin \<Longrightarrow> exchange e S k = ([], Inl TypeError)"
  by (simp add: exchange_def getLlmResponse_builtin)

lemma before_try_Inr_cases:
  assumes "before_try S b = Inr S1"
  shows "(store_get S (to_string (b ''CallSid'')) = Builtin \<and> S1 = S \<and> spoken b = [])
       \<or> (store_get S (to_string (b ''CallSid'')) \<noteq> Builtin
            \<and> S1 = S(to_string (b ''CallSid'') \<mapsto> entered S b))"
proof (cases "store_get S (to_string (b ''CallSid'')) = Builtin")
  case True
  with assms show ?thesis
    by (auto simp: before_try_builtin split: if_splits)
next
  case False
  with assms show ?thesis
    by (simp add: before_try_entry)
qed

lemma store_get_Builtin_iff:
  "store_get S k = Builtin \<longleftrightarrow> S k = None \<and> k \<in> set object_prototype_names"
  by (simp add: store_get_def split: option.splits)

lemma voice_try_builtin:
  "store_get S k = Builtin \<Longrightarrow>
     voice_try e S b k = \<lparr>caused = [], left = S, document = [], thrown = Some TypeError\<rparr>"
  by (simp add: voice_try_def exchange_builtin)

lemma voice_try_entry:
  "voice_try e (S(k \<mapsto> c)) b k =
     (case exchange e (S(k \<mapsto> c)) k of
        (evs, Inl err) \<Rightarrow> \<lparr>caused = evs, left = S(k \<mapsto> c), document = [], thrown = Some err\<rparr>
      | (evs, Inr (S', r)) \<Rightarrow>
          if truthy (isComplete r)
          then (case twiml_say e (responseText r) of
                  Inl err \<Rightarrow>
                    \<lparr>caused = evs @ savePatientData e (b ''To'') (collectedData (recorded c r)),
                     left = S(k \<mapsto> recorded c r), document = [], thrown = Some err\<rparr>
                | Inr said \<Rightarrow>
                    \<lparr>caused = evs @ savePatientData e (b ''To'') (collectedData (recorded c r)) @
                              [Store_delete k],
                     left = S(k := None), document = said @ [Hangup], thrown = None\<rparr>)
          else (case gather_say e (responseText r) of
                  Inl err \<Rightarrow>
                    \<lparr>caused = evs, left = S(k \<mapsto> recorded c r),
                     document = [Gather gather_attributes []], thrown = Some err\<rparr>
                | Inr said \<Rightarrow>
                    \<lparr>caused = evs, left = S(k \<mapsto> recorded c r),
                     document = [Gather gather_attributes said], thrown = None\<rparr>))"
  by (auto simp: voice_try_def exchange_entry store_get_def remove_def
      split: completion.splits sum.splits)

lemma voice_builtin:
  assumes "store_get S (to_string (b ''CallSid'')) = Builtin"
  shows "voice e S b =
     (if spoken b = []
      then \<lparr>store = S, reply = Twiml [Say (JStr apology), Hangup],
            events = [Console_error ''Error during LLM processing or TwiML generation:'']\<rparr>
      else \<lparr>store = S, reply = Unhandled TypeError, events = []\<rparr>)"
  using assms
  by (simp add: voice_def before_try_builtin voice_try_builtin get_or_create_def)

lemma voice_fails:
  assumes "store_get S (to_string (b ''CallSid'')) \<noteq> Builtin"
    and "completion e = Rejects \<or> completion e = No_content \<or> completion e = Not_json
         \<or> (\<exists>rd err. completion e = Parsed rd \<and> read_response rd = Inl err)"
  shows "voice e S b =
     \<lparr>store = S(to_string (b ''CallSid'') \<mapsto> entered S b),
      reply = Twiml [Say (JStr apology), Hangup],
      events = [Completions_create (request_for e (entered S b)),
                Console_error ''Error during LLM processing or TwiML generation:'']\<rparr>"
  using assms
  by (auto simp: voice_def before_try_entry voice_try_entry exchange_entry)

lemma voice_gathers:
  assumes "store_get S (to_string (b ''CallSid'')) \<noteq> Builtin"
    and "completion e = Parsed rd" and "read_response rd = Inr r" and "\<not> truthy (isComplete r)"
    and "gather_say e (responseText r) = Inr said"
  shows "voice e S b =
     \<lparr>store = S(to_string (b ''CallSid'') \<mapsto> recorded (entered S b) r),
      reply = Twiml [Gather gather_attributes said],
      events = [Completions_create (request_for e (entered S b)),
                Console_log_state (collectedData (recorded (entered S b) r))]\<rparr>"
  using assms
  by (simp add: voice_def before_try_entry voice_try_entry exchange_entry)

lemma voice_gather_throws:
  assumes "store_get S (to_string (b ''CallSid'')) \<noteq> Builtin"
    and "completion e = Parsed rd" and "read_response rd = Inr r" and "\<not> truthy (isComplete r)"
    and "gather_say e (responseText r) = Inl err"
  shows "voice e S b =
     \<lparr>store = S(to_string (b ''CallSid'') \<mapsto> recorded (entered S b) r),
      reply = Twiml [Gather gather_attributes [], Say (JStr apology), Hangup],
      events = [Completions_create (request_for e (entered S b)),
                Console_log_state (collectedData (recorded (entered S b) r)),
                Console_error ''Error during LLM processing or TwiML generation:'']\<rparr>"
  using assms
  by (simp add: voice_def before_try_entry voice_try_entry exchange_entry)

lemma voice_completes:
  assumes "store_get S (to_string (b ''CallSid'')) \<noteq> Builtin"
    and "completion e = Parsed rd" and "read_response rd = Inr r" and "truthy (isComplete r)"
    and "twiml_say e (responseText r) = Inr said"
  shows "voice e S b =
     \<lparr>store = S(to_string (b ''CallSid'') := None),
      reply = Twiml (said @ [Hangup]),
      events = [Completions_create (request_for e (entered S b)),
                Console_log_state (collectedData (recorded (entered S b) r))] @
               savePatientData e (b ''To'') (collectedData (recorded (entered S b) r)) @
               [Store_delete (to_string (b ''CallSid''))]\<rparr>"
  using assms
  by (simp add: voice_def before_try_entry voice_try_entry exchange_entry)

lemma voice_say_throws:
  assumes "store_get S (to_string (b ''CallSid'')) \<noteq> Builtin"
    and "completion e = Parsed rd" and "read_response rd = Inr r" and "truthy (isComplete r)"
    and "twiml_say e (responseText r) = Inl err"
  shows "voice e S b =
     \<lparr>store = S(to_string (b ''CallSid'') \<mapsto> recorded (entered S b) r),
      reply = Twiml [Say (JStr apology), Hangup],
      events = [Completions_create (request_for e (entered S b)),
                Console_log_state (collectedData (recorded (entered S b) r))] @
               savePatientData e (b ''To'') (collectedData (recorded (entered S b) r)) @
               [Console_error ''Error during LLM processing or TwiML generation:'']\<rparr>"
  using assms
  by (simp add: voice_def before_try_entry voice_try_entry exchange_entry)

lemma voice_cases [consumes 1, case_names fails gathers gather_throws completes say_throws]:
  assumes "store_get S (to_string (b ''CallSid'')) \<noteq> Builtin"
  obtains
    "\<not> (\<exists>rd r. completion e = Parsed rd \<and> read_response rd = Inr r)"
    "voice e S b =
       \<lparr>store = S(to_string (b ''CallSid'') \<mapsto> entered S b),
        reply = Twiml [Say (JStr apology), Hangup],
        events = [Completions_create (request_for e (entered S b)),
                  Console_error ''Error during LLM processing or TwiML generation:'']\<rparr>"
  | rd r said where "completion e = Parsed rd" "read_response rd = Inr r" "\<not> truthy (isComplete r)"
    "gather_say e (responseText r) = Inr said"
    "voice e S b =
       \<lparr>store = S(to_string (b ''CallSid'') \<mapsto> recorded (entered S b) r),
        reply = Twiml [Gather gather_attributes said],
        events = [Completions_create (request_for e (entered S b)),
                  Console_log_state (collectedData (recorded (entered S b) r))]\<rparr>"
  | rd r err where "completion e = Parsed rd" "read_response rd = Inr r" "\<not> truthy (isComplete r)"
    "gather_say e (responseText r) = Inl err"
    "voice e S b =
       \<lparr>store = S(to_string (b ''CallSid'') \<mapsto> recorded (entered S b) r),
        reply = Twiml [Gather gather_attributes [], Say (JStr apology), Hangup],
        events = [Completions_create (request_for e (entered S b)),
                  Console_log_state (collectedData (recorded (entered S b) r)),
                  Console_error ''Error during LLM processing or TwiML generation:'']\<rparr>"
  | rd r said where "completion e = Parsed rd" "read_response rd = Inr r" "truthy (isComplete r)"
    "twiml_say e (responseText r) = Inr said"
    "voice e S b =
       \<lparr>store = S(to_string (b ''CallSid'') := None),
        reply = Twiml (said @ [Hangup]),
        events = [Completions_create (request_for e (entered S b)),
                  Console_log_state (collectedData (recorded (entered S b) r))] @
                 savePatientData e (b ''To'') (collectedData (recorded (entered S b) r)) @
                 [Store_delete (to_string (b ''CallSid''))]\<rparr>"
  | rd r err where "completion e = Parsed rd" "read_response rd = Inr r" "truthy (isComplete r)"
    "twiml_say e (responseText r) = Inl err"
    "voice e S b =
       \<lparr>store = S(to_string (b ''CallSid'') \<mapsto> recorded (entered S b) r),
        reply = Twiml [Say (JStr apology), Hangup],
        events = [Completions_create (request_for e (entered S b)),
                  Console_log_state (collectedData (recorded (entered S b) r))] @
                 savePatientData e (b ''To'') (collectedData (recorded (entered S b) r)) @
                 [Console_error ''Error during LLM processing or TwiML generation:'']\<rparr>"
proof (cases "completion e")
  case (Parsed rd)
  show ?thesis
  proof (cases "read_response rd")
    case (Inl err)
    with Parsed have "\<not> (\<exists>rd r. completion e = Parsed rd \<and> read_response rd = Inr r)"
      by auto
    moreover from Parsed Inl have "completion e = Rejects \<or> completion e = No_content \<or> completion e = Not_json
         \<or> (\<exists>rd err. completion e = Parsed rd \<and> read_response rd = Inl err)"
      by auto
    ultimately show ?thesis
      using that(1) voice_fails [where S = S and b = b and e = e] assms by blast
  next
    case (Inr r)
    show ?thesis
    proof (cases "truthy (isComplete r)")
      case True
      show ?thesis
      proof (cases "twiml_say e (responseText r)")
        case (Inl err)
        with True Parsed Inr assms that(5)
          voice_say_throws [where S = S and b = b and e = e and rd = rd and r = r and err = err]
        show ?thesis by blast
      next
        case (Inr said)
        with True Parsed \<open>read_response rd = Inr r\<close> assms that(4)
          voice_completes [where S = S and b = b and e = e and rd = rd and r = r and said = said]
        show ?thesis by blast
      qed
    next
      case False
      show ?thesis
      proof (cases "gather_say e (responseText r)")
        case (Inl err)
        with False Parsed Inr assms that(3)
          voice_gather_throws [where S = S and b = b and e = e and rd = rd and r = r and err = err]
        show ?thesis by blast
      next
        case (Inr said)
        with False Parsed \<open>read_response rd = Inr r\<close> assms that(2)
          voice_gathers [where S = S and b = b and e = e and rd = rd and r = r and said = said]
        show ?thesis by blast
      qed
    qed
  qed
qed (use that(1) voice_fails [where S = S and b = b and e = e] assms in auto)

lemma voice_requests:
  "completion_requests (events (voice e S b)) =
     (if store_get S (to_string (b ''CallSid'')) = Builtin then [] else [request_for e (entered S b)])"
proof (cases "store_get S (to_string (b ''CallSid'')) = Builtin")
  case True
  then show ?thesis by (simp add: voice_builtin)
next
  case False
  then show ?thesis
    by (cases rule: voice_cases [where e = e])
      (simp_all add: completion_requests_append savePatientData_calls False)
qed

lemmas run_defs =
  voice_def before_try_def get_or_create_def store_get_def push_message_def
  object_prototype_names_def to_string_def as_value_def voice_try_def exchange_def
  getLlmResponse_def read_response_def remove_def object_assign_def js_set_def empty_object_def

section \<open>Creating the state of a call\<close>

text \<open>
  For a call identifier that is not a name inherited from \<^verbatim>\<open>Object.prototype\<close>, lines 48
  to 50 do keep the entry that exists or create the fresh state, a second pass changes
  nothing, and no other entry is touched.
\<close>

lemma get_or_create_ordinary:
  assumes "callSid \<notin> set object_prototype_names"
  shows "get_or_create S callSid callSid =
           Some (case S callSid of None \<Rightarrow> \<lparr>history = [], collectedData = empty_object\<rparr> | Some c \<Rightarrow> c)"
    and "get_or_create (get_or_create S callSid) callSid = get_or_create S callSid"
    and "k \<noteq> callSid \<Longrightarrow> get_or_create S callSid k = S k"
  using assms by (auto simp: get_or_create_def store_get_def split: option.splits)

text \<open>
  C6 (the code departs from it). The claim: for every call identifier, lines 48 to 50
  return the existing entry or create \<^verbatim>\<open>{history: [], collectedData: {}}\<close>, with no error
  condition. For the identifier \<^verbatim>\<open>constructor\<close>, a name that every plain object inherits,
  the test of line 48 finds a truthy value, so an empty store stays empty, the read
  \<^verbatim>\<open>conversationState[callSid]\<close> gives a built-in instead of a state, and pushing the
  caller's words onto its \<^verbatim>\<open>history\<close> throws.
\<close>

theorem get_or_create_inherited_name:
  "get_or_create Map.empty ''constructor'' = Map.empty
   \<and> store_get (get_or_create Map.empty ''constructor'') ''constructor'' = Builtin
   \<and> push_message (get_or_create Map.empty ''constructor'') ''constructor''
        \<lparr>role = ''user'', content = JStr ''hello''\<rparr> = Inl TypeError"
  by (simp add: get_or_create_def store_get_def object_prototype_names_def push_message_def)

section \<open>Exceptions during a turn\<close>

text \<open>
  C2 as stated fails: the push of the caller's words (line 53) stands before the
  \<^verbatim>\<open>try\<close>, so an exception there is not answered with the apology. For the call
  identifier \<^verbatim>\<open>constructor\<close> and the words \<^verbatim>\<open>hello\<close> the handler ends with an uncaught
  TypeError and no document.
\<close>

theorem voice_push_exception_unhandled:
  "reply (voice \<lparr>JSON_stringify = (\<lambda>d. ''{}''), completion = Not_json, db = Db_ok, twiml_say = (\<lambda>v. Inr [Say v]), gather_say = (\<lambda>v. Inr [Say v])\<rparr> Map.empty
            [''CallSid'' \<mapsto> ''constructor'', ''SpeechResult'' \<mapsto> ''hello''])
   = Unhandled TypeError"
  by (simp add: voice_def before_try_def get_or_create_def store_get_def push_message_def
      object_prototype_names_def to_string_def as_value_def)

lemma voice_try_missing:
  "store_get S k = Missing \<Longrightarrow>
     voice_try e S b k = \<lparr>caused = [], left = S, document = [], thrown = Some TypeError\<rparr>"
  by (simp add: voice_try_def exchange_def getLlmResponse_def)

lemma voice_try_thrown:
  assumes "thrown (voice_try e S b k) = Some err"
  shows "store_deletes (caused (voice_try e S b k)) = []"
    and "(left (voice_try e S b k) k' = None) = (S k' = None)"
    and "document (voice_try e S b k) = []
         \<or> document (voice_try e S b k) = [Gather gather_attributes []]
           \<and> (\<exists>rd r. completion e = Parsed rd \<and> read_response rd = Inr r
                  \<and> \<not> truthy (isComplete r) \<and> isl (gather_say e (responseText r)))"
proof -
  have "store_deletes (caused (voice_try e S b k)) = []
      \<and> (left (voice_try e S b k) k' = None) = (S k' = None)
      \<and> (document (voice_try e S b k) = []
         \<or> document (voice_try e S b k) = [Gather gather_attributes []]
           \<and> (\<exists>rd r. completion e = Parsed rd \<and> read_response rd = Inr r
                  \<and> \<not> truthy (isComplete r) \<and> isl (gather_say e (responseText r))))"
  proof (cases "store_get S k")
    case (Entry c)
    then have "S k = Some c"
      by (simp add: store_get_def split: option.splits if_splits)
    then have S: "S(k \<mapsto> c) = S"
      by (rule fun_upd_idem) 
    from assms voice_try_entry [of e S k c b] show ?thesis
      unfolding S
      by (cases "completion e")
        (auto simp: exchange_entry [of e S k c, unfolded S] store_deletes_append savePatientData_calls
          \<open>S k = Some c\<close> split: sum.splits if_splits)
  next
    case Builtin
    then show ?thesis by (simp add: voice_try_builtin)
  next
    case Missing
    then show ?thesis by (simp add: voice_try_missing)
  qed
  then show "store_deletes (caused (voice_try e S b k)) = []"
    and "(left (voice_try e S b k) k' = None) = (S k' = None)"
    and "document (voice_try e S b k) = []
         \<or> document (voice_try e S b k) = [Gather gather_attributes []]
           \<and> (\<exists>rd r. completion e = Parsed rd \<and> read_response rd = Inr r
                  \<and> \<not> truthy (isComplete r) \<and> isl (gather_say e (responseText r)))"
    by blast+
qed

lemma voice_try_Not_json:
  assumes "completion e = Not_json"
  shows "thrown (voice_try e S b k) \<noteq> None" and "document (voice_try e S b k) = []"
    and "left (voice_try e S b k) = S"
  using assms
  by (auto simp: voice_try_def exchange_def split: sum.splits)

text \<open>
  C2, amended: for every turn in which a step inside the \<^verbatim>\<open>try\<close> block (from building
  the completion request through branching) throws, and so for every turn whose
  completion content is not parseable JSON, the document is what the block had added
  followed by the apology and the hangup. The block had added nothing, so that the
  document is exactly the apology and the hangup, unless it was \<^verbatim>\<open>gather.say\<close> that
  threw (on a response that does not report \<^verbatim>\<open>isComplete\<close>): then the empty gather of
  line 71 stands before the apology. Nothing is deleted, and the entry of the call is
  there afterwards: the one it had, or the one line 49 created for a call identifier
  that is not a name inherited from \<^verbatim>\<open>Object.prototype\<close>. When the content is not
  parseable JSON the store is as lines 45 to 54 left it.
\<close>

theorem voice_try_exception:
  assumes "before_try S b = Inr S1"
    and "thrown (voice_try e S1 b (to_string (b ''CallSid''))) \<noteq> None \<or> completion e = Not_json"
  shows "reply (voice e S b) =
           Twiml (document (voice_try e S1 b (to_string (b ''CallSid''))) @
                  [Say (JStr apology), Hangup])
       \<and> (document (voice_try e S1 b (to_string (b ''CallSid''))) = []
            \<or> document (voice_try e S1 b (to_string (b ''CallSid''))) = [Gather gather_attributes []]
              \<and> (\<exists>rd r. completion e = Parsed rd \<and> read_response rd = Inr r
                     \<and> \<not> truthy (isComplete r) \<and> isl (gather_say e (responseText r))))
       \<and> (completion e = Not_json \<longrightarrow>
            reply (voice e S b) = Twiml [Say (JStr apology), Hangup] \<and> store (voice e S b) = S1)
       \<and> store_deletes (events (voice e S b)) = []
       \<and> (S (to_string (b ''CallSid'')) \<noteq> None
              \<or> to_string (b ''CallSid'') \<notin> set object_prototype_names \<longrightarrow>
            store (voice e S b) (to_string (b ''CallSid'')) \<noteq> None)"
proof -
  let ?k = "to_string (b ''CallSid'')"
  let ?t = "voice_try e S1 b ?k"
  from assms(2) obtain err where thrown: "thrown ?t = Some err"
    using voice_try_Not_json(1) [of e S1 b ?k] by auto
  have kept: "S ?k \<noteq> None \<or> ?k \<notin> set object_prototype_names \<longrightarrow> S1 ?k \<noteq> None"
    using assms(1)
    by (auto simp: before_try_def get_or_create_def store_get_def push_message_def Let_def
        split: if_splits option.splits)
  have out: "reply (voice e S b) = Twiml (document ?t @ [Say (JStr apology), Hangup])"
    "store (voice e S b) = left ?t"
    "events (voice e S b) = caused ?t @ [Console_error ''Error during LLM processing or TwiML generation:'']"
    using assms(1) thrown by (simp_all add: voice_def Let_def)
  have dels: "store_deletes (events (voice e S b)) = []"
    using voice_try_thrown(1) [OF thrown] by (simp add: out store_deletes_append)
  have there: "S ?k \<noteq> None \<or> ?k \<notin> set object_prototype_names \<longrightarrow> store (voice e S b) ?k \<noteq> None"
    using kept voice_try_thrown(2) [OF thrown, of ?k] by (simp add: out)
  have nj: "completion e = Not_json \<longrightarrow>
      reply (voice e S b) = Twiml [Say (JStr apology), Hangup] \<and> store (voice e S b) = S1"
    using voice_try_Not_json(2,3) [of e S1 b ?k] by (simp add: out)
  from out(1) voice_try_thrown(3) [OF thrown] nj dels there show ?thesis
    by (intro conjI)
qed

text \<open>
  C2, two instances on the first turn of call \<^verbatim>\<open>CA1\<close> with the words \<^verbatim>\<open>hello\<close>: one
  answered with content that is not JSON, and one whose answer does not report
  \<^verbatim>\<open>isComplete\<close> and has a \<^verbatim>\<open>responseText\<close> ending in a form feed, on which \<^verbatim>\<open>gather.say\<close>
  throws.
\<close>

theorem voice_try_exception_witness:
  "before_try Map.empty [''CallSid'' \<mapsto> ''CA1'', ''SpeechResult'' \<mapsto> ''hello'']
     = Inr [''CA1'' \<mapsto> \<lparr>history = [\<lparr>role = ''user'', content = JStr ''hello''\<rparr>],
                         collectedData = empty_object\<rparr>]
   \<and> reply (voice
        \<lparr>JSON_stringify = (\<lambda>d. ''{}''), completion = Not_json, db = Db_ok,
         twiml_say = (\<lambda>v. Inr [Say v]), gather_say = (\<lambda>v. Inr [Say v])\<rparr>
        Map.empty [''CallSid'' \<mapsto> ''CA1'', ''SpeechResult'' \<mapsto> ''hello''])
       = Twiml [Say (JStr apology), Hangup]
   \<and> store (voice
        \<lparr>JSON_stringify = (\<lambda>d. ''{}''), completion = Not_json, db = Db_ok,
         twiml_say = (\<lambda>v. Inr [Say v]), gather_say = (\<lambda>v. Inr [Say v])\<rparr>
        Map.empty [''CallSid'' \<mapsto> ''CA1'', ''SpeechResult'' \<mapsto> ''hello''])
       = [''CA1'' \<mapsto> \<lparr>history = [\<lparr>role = ''user'', content = JStr ''hello''\<rparr>],
                       collectedData = empty_object\<rparr>]
   \<and> thrown (voice_try
        \<lparr>JSON_stringify = (\<lambda>d. ''{}''),
         completion = Parsed (JObj [(''responseText'', JStr (''What is your name?'' @ [CHR 0x0C])),
                                    (''extractedData'', JObj []),
                                    (''isComplete'', JBool False)]),
         db = Db_ok, twiml_say = (\<lambda>v. Inr [Say v]),
         gather_say = (\<lambda>v. if v = JStr (''What is your name?'' @ [CHR 0x0C])
                             then Inl BuilderError else Inr [Say v])\<rparr>
        [''CA1'' \<mapsto> \<lparr>history = [\<lparr>role = ''user'', content = JStr ''hello''\<rparr>],
                         collectedData = empty_object\<rparr>]
        [''CallSid'' \<mapsto> ''CA1'', ''SpeechResult'' \<mapsto> ''hello''] ''CA1'') = Some BuilderError
   \<and> reply (voice
        \<lparr>JSON_stringify = (\<lambda>d. ''{}''),
         completion = Parsed (JObj [(''responseText'', JStr (''What is your name?'' @ [CHR 0x0C])),
                                    (''extractedData'', JObj []),
                                    (''isComplete'', JBool False)]),
         db = Db_ok, twiml_say = (\<lambda>v. Inr [Say v]),
         gather_say = (\<lambda>v. if v = JStr (''What is your name?'' @ [CHR 0x0C])
                             then Inl BuilderError else Inr [Say v])\<rparr>
        Map.empty [''CallSid'' \<mapsto> ''CA1'', ''SpeechResult'' \<mapsto> ''hello''])
       = Twiml [Gather gather_attributes [], Say (JStr apology), Hangup]
   \<and> store_deletes (events (voice
        \<lparr>JSON_stringify = (\<lambda>d. ''{}''),
         completion = Parsed (JObj [(''responseText'', JStr (''What is your name?'' @ [CHR 0x0C])),
                                    (''extractedData'', JObj []),
                                    (''isComplete'', JBool False)]),
         db = Db_ok, twiml_say = (\<lambda>v. Inr [Say v]),
         gather_say = (\<lambda>v. if v = JStr (''What is your name?'' @ [CHR 0x0C])
                             then Inl BuilderError else Inr [Say v])\<rparr>
        Map.empty [''CallSid'' \<mapsto> ''CA1'', ''SpeechResult'' \<mapsto> ''hello''])) = []"
proof -
  let ?b = "[''CallSid'' \<mapsto> ''CA1'', ''SpeechResult'' \<mapsto> ''hello'']"
  let ?e = "\<lparr>JSON_stringify = (\<lambda>d. ''{}''), completion = Not_json, db = Db_ok,
         twiml_say = (\<lambda>v. Inr [Say v]), gather_say = (\<lambda>v. Inr [Say v])\<rparr>"
  let ?e' = "\<lparr>JSON_stringify = (\<lambda>d. ''{}''),
         completion = Parsed (JObj [(''responseText'', JStr (''What is your name?'' @ [CHR 0x0C])),
                                    (''extractedData'', JObj []),
                                    (''isComplete'', JBool False)]),
         db = Db_ok, twiml_say = (\<lambda>v. Inr [Say v]),
         gather_say = (\<lambda>v. if v = JStr (''What is your name?'' @ [CHR 0x0C])
                             then Inl BuilderError else Inr [Say v])\<rparr>"
  let ?S1 = "[''CA1'' \<mapsto> \<lparr>history = [\<lparr>role = ''user'', content = JStr ''hello''\<rparr>],
                         collectedData = empty_object\<rparr>]"
  have k: "to_string (?b ''CallSid'') = ''CA1''"
    by (simp add: to_string_def)
  have h1: "before_try Map.empty ?b = Inr ?S1"
    by (simp add: run_defs)
  have h2: "thrown (voice_try ?e ?S1 ?b ''CA1'') \<noteq> None \<or> completion ?e = Not_json"
    by simp
  have t: "thrown (voice_try ?e' ?S1 ?b ''CA1'') = Some BuilderError"
    and d: "document (voice_try ?e' ?S1 ?b ''CA1'') = [Gather gather_attributes []]"
    by (simp_all add: run_defs)
  from t have h2': "thrown (voice_try ?e' ?S1 ?b ''CA1'') \<noteq> None \<or> completion ?e' = Not_json"
    by simp
  note T = voice_try_exception [where S = Map.empty and b = ?b and e = ?e and ?S1.0 = ?S1,
      unfolded k, OF h1 h2]
  note T' = voice_try_exception [where S = Map.empty and b = ?b and e = ?e' and ?S1.0 = ?S1,
      unfolded k, OF h1 h2']
  have nj: "completion ?e = Not_json"
    by simp
  from T [THEN conjunct2, THEN conjunct2, THEN conjunct1, THEN mp, OF nj]
  have c1: "reply (voice ?e Map.empty ?b) = Twiml [Say (JStr apology), Hangup]"
    and c2: "store (voice ?e Map.empty ?b) = ?S1"
    by (rule conjunct1, rule conjunct2)
  from T' [THEN conjunct1] d
  have c3: "reply (voice ?e' Map.empty ?b) = Twiml [Gather gather_attributes [], Say (JStr apology), Hangup]"
    by simp
  from T' [THEN conjunct2, THEN conjunct2, THEN conjunct2, THEN conjunct1]
  have c4: "store_deletes (events (voice ?e' Map.empty ?b)) = []" .
  from h1 c1 c2 t c3 c4 show ?thesis
    by (intro conjI)
qed

section \<open>What a turn appends to the history\<close>

text \<open>
  C7 as stated fails: on a first turn with empty \<^verbatim>\<open>SpeechResult\<close> the directive is not
  always speak and gather. When the completion already reports \<^verbatim>\<open>isComplete\<close>, line 65
  takes the other branch: the document is speak and hangup, and the entry, with its
  history, is deleted.
\<close>

theorem first_turn_may_hang_up:
  "reply (voice \<lparr>JSON_stringify = (\<lambda>d. ''{}''),
                 completion = Parsed (JObj [(''responseText'', JStr ''Thank you''),
                                            (''extractedData'', JObj []),
                                            (''isComplete'', JBool True)]),
                 db = Db_ok, twiml_say = (\<lambda>v. Inr [Say v]), gather_say = (\<lambda>v. Inr [Say v])\<rparr>
            Map.empty [''CallSid'' \<mapsto> ''CA1''])
     = Twiml [Say (JStr ''Thank you''), Hangup]
   \<and> store (voice \<lparr>JSON_stringify = (\<lambda>d. ''{}''),
                 completion = Parsed (JObj [(''responseText'', JStr ''Thank you''),
                                            (''extractedData'', JObj []),
                                            (''isComplete'', JBool True)]),
                 db = Db_ok, twiml_say = (\<lambda>v. Inr [Say v]), gather_say = (\<lambda>v. Inr [Say v])\<rparr>
            Map.empty [''CallSid'' \<mapsto> ''CA1'']) ''CA1'' = None"
  by (simp add: voice_def before_try_def get_or_create_def store_get_def push_message_def
      object_prototype_names_def to_string_def as_value_def voice_try_def exchange_def
      getLlmResponse_def read_response_def remove_def)

text \<open>
  C7, amended: on every turn that gets through lines 45 to 63 (the store \<open>S2\<close> is the one
  after line 61), the history of the call is the one it had, then the caller's words as
  a user message exactly when \<^verbatim>\<open>SpeechResult\<close> is non-empty, then the assistant's reply; so
  on a first turn with empty \<^verbatim>\<open>SpeechResult\<close> it has length 1. When the completion does
  not report \<^verbatim>\<open>isComplete\<close>, that store is the one the turn leaves, and when moreover
  \<^verbatim>\<open>gather.say\<close> accepts \<^verbatim>\<open>responseText\<close>, so that the turn completes, the directive is the
  gather holding what \<^verbatim>\<open>gather.say\<close> made of it: speak and gather.
\<close>

theorem turn_history:
  assumes "before_try S b = Inr S1"
    and "exchange e S1 (to_string (b ''CallSid'')) = (evs, Inr (S2, r))"
  shows "map_option history (S2 (to_string (b ''CallSid''))) =
           Some (known_history S (to_string (b ''CallSid'')) @ spoken b @
                 [\<lparr>role = ''assistant'', content = responseText r\<rparr>])
       \<and> (\<forall>u. b ''SpeechResult'' = Some u \<and> u \<noteq> [] \<longrightarrow>
              spoken b = [\<lparr>role = ''user'', content = JStr u\<rparr>])
       \<and> (b ''SpeechResult'' = None \<or> b ''SpeechResult'' = Some [] \<longrightarrow> spoken b = [])
       \<and> (S (to_string (b ''CallSid'')) = None \<and> spoken b = [] \<longrightarrow>
              map_option (\<lambda>c. length (history c)) (S2 (to_string (b ''CallSid''))) = Some 1)
       \<and> (\<not> truthy (isComplete r) \<longrightarrow>
              store (voice e S b) = S2
            \<and> (\<forall>said. gather_say e (responseText r) = Inr said \<longrightarrow>
                  reply (voice e S b) = Twiml [Gather gather_attributes said]))"
proof -
  let ?k = "to_string (b ''CallSid'')"
  from assms(2) have nb: "store_get S1 ?k \<noteq> Builtin"
    by (auto simp: exchange_builtin)
  from before_try_Inr_cases [OF assms(1)] nb
  have ord: "store_get S ?k \<noteq> Builtin" and S1: "S1 = S(?k \<mapsto> entered S b)"
    by auto
  from assms(2) S1 obtain rd where
    rd: "completion e = Parsed rd" "read_response rd = Inr r"
    and S2: "S2 = S(?k \<mapsto> recorded (entered S b) r)"
    by (auto simp: exchange_entry split: completion.splits sum.splits)
  have hist: "history (recorded (entered S b) r) =
      known_history S ?k @ spoken b @ [\<lparr>role = ''assistant'', content = responseText r\<rparr>]"
    by (simp add: recorded_def entered_def)
  have first: "S ?k = None \<and> spoken b = [] \<longrightarrow> length (history (recorded (entered S b) r)) = 1"
    by (simp add: hist known_history_def)
  have cont: "\<not> truthy (isComplete r) \<longrightarrow>
      store (voice e S b) = S2
    \<and> (\<forall>said. gather_say e (responseText r) = Inr said \<longrightarrow>
          reply (voice e S b) = Twiml [Gather gather_attributes said])"
  proof (cases "gather_say e (responseText r)")
    case (Inl err)
    with voice_gather_throws [where S = S and b = b and e = e and rd = rd and r = r and err = err]
      ord rd S2
    show ?thesis by simp
  next
    case (Inr said)
    with voice_gathers [where S = S and b = b and e = e and rd = rd and r = r and said = said]
      ord rd S2
    show ?thesis by simp
  qed
  show ?thesis
    using S2 hist first cont by (auto simp: spoken_cases)
qed

text \<open>
  C7, two instances: the first turn of call \<^verbatim>\<open>CA1\<close> without words, and its second turn
  with the words \<^verbatim>\<open>Asha\<close>.
\<close>

theorem turn_history_witness:
  "before_try Map.empty [''CallSid'' \<mapsto> ''CA1'']
     = Inr [''CA1'' \<mapsto> \<lparr>history = [], collectedData = empty_object\<rparr>]
   \<and> snd (exchange
        \<lparr>JSON_stringify = (\<lambda>d. ''{}''),
         completion = Parsed (JObj [(''responseText'', JStr ''What is your name?''),
                                    (''extractedData'', JObj []),
                                    (''isComplete'', JBool False)]),
         db = Db_ok, twiml_say = (\<lambda>v. Inr [Say v]), gather_say = (\<lambda>v. Inr [Say v])\<rparr>
        [''CA1'' \<mapsto> \<lparr>history = [], collectedData = empty_object\<rparr>] ''CA1'')
     = Inr ([''CA1'' \<mapsto> \<lparr>history = [\<lparr>role = ''assistant'', content = JStr ''What is your name?''\<rparr>],
                            collectedData = empty_object\<rparr>],
            \<lparr>responseText = JStr ''What is your name?'', extractedData = JObj [],
             isComplete = JBool False\<rparr>)
   \<and> length [\<lparr>role = ''assistant'', content = JStr ''What is your name?''\<rparr>] = 1
   \<and> reply (voice
        \<lparr>JSON_stringify = (\<lambda>d. ''{}''),
         completion = Parsed (JObj [(''responseText'', JStr ''What is your name?''),
                                    (''extractedData'', JObj []),
                                    (''isComplete'', JBool False)]),
         db = Db_ok, twiml_say = (\<lambda>v. Inr [Say v]), gather_say = (\<lambda>v. Inr [Say v])\<rparr>
        Map.empty [''CallSid'' \<mapsto> ''CA1''])
     = Twiml [Gather gather_attributes [Say (JStr ''What is your name?'')]]
   \<and> store (voice
        \<lparr>JSON_stringify = (\<lambda>d. ''{}''),
         completion = Parsed (JObj [(''responseText'', JStr ''Where do you live?''),
                                    (''extractedData'', JObj [(''full_name'', JStr ''Asha'')]),
                                    (''isComplete'', JBool False)]),
         db = Db_ok, twiml_say = (\<lambda>v. Inr [Say v]), gather_say = (\<lambda>v. Inr [Say v])\<rparr>
        [''CA1'' \<mapsto> \<lparr>history = [\<lparr>role = ''assistant'', content = JStr ''What is your name?''\<rparr>],
                         collectedData = empty_object\<rparr>]
        [''CallSid'' \<mapsto> ''CA1'', ''SpeechResult'' \<mapsto> ''Asha'']) ''CA1''
     = Some \<lparr>history = [\<lparr>role = ''assistant'', content = JStr ''What is your name?''\<rparr>,
                        \<lparr>role = ''user'', content = JStr ''Asha''\<rparr>,
                        \<lparr>role = ''assistant'', content = JStr ''Where do you live?''\<rparr>],
             collectedData = \<lparr>props = [(''full_name'', JStr ''Asha'')], proto = Object_prototype\<rparr>\<rparr>"
proof -
  let ?q = "JObj [(''responseText'', JStr ''What is your name?''), (''extractedData'', JObj []),
                  (''isComplete'', JBool False)]"
  let ?q' = "JObj [(''responseText'', JStr ''Where do you live?''),
                   (''extractedData'', JObj [(''full_name'', JStr ''Asha'')]),
                   (''isComplete'', JBool False)]"
  let ?e = "\<lparr>JSON_stringify = (\<lambda>d. ''{}''), completion = Parsed ?q, db = Db_ok, twiml_say = (\<lambda>v. Inr [Say v]), gather_say = (\<lambda>v. Inr [Say v])\<rparr>"
  let ?e' = "\<lparr>JSON_stringify = (\<lambda>d. ''{}''), completion = Parsed ?q', db = Db_ok, twiml_say = (\<lambda>v. Inr [Say v]), gather_say = (\<lambda>v. Inr [Say v])\<rparr>"
  let ?b = "[''CallSid'' \<mapsto> ''CA1'']"
  let ?b' = "[''CallSid'' \<mapsto> ''CA1'', ''SpeechResult'' \<mapsto> ''Asha'']"
  let ?S1 = "[''CA1'' \<mapsto> \<lparr>history = [], collectedData = empty_object\<rparr>]"
  let ?a = "\<lparr>role = ''assistant'', content = JStr ''What is your name?''\<rparr>"
  let ?S2 = "[''CA1'' \<mapsto> \<lparr>history = [?a], collectedData = empty_object\<rparr>]"
  let ?r = "\<lparr>responseText = JStr ''What is your name?'', extractedData = JObj [],
            isComplete = JBool False\<rparr>"
  let ?S1' = "[''CA1'' \<mapsto> \<lparr>history = [?a, \<lparr>role = ''user'', content = JStr ''Asha''\<rparr>],
                           collectedData = empty_object\<rparr>]"
  let ?c' = "\<lparr>history = [?a, \<lparr>role = ''user'', content = JStr ''Asha''\<rparr>,
                         \<lparr>role = ''assistant'', content = JStr ''Where do you live?''\<rparr>],
             collectedData = \<lparr>props = [(''full_name'', JStr ''Asha'')], proto = Object_prototype\<rparr>\<rparr>"
  let ?r' = "\<lparr>responseText = JStr ''Where do you live?'',
             extractedData = JObj [(''full_name'', JStr ''Asha'')], isComplete = JBool False\<rparr>"
  have h1: "before_try Map.empty ?b = Inr ?S1"
    by (simp add: run_defs)
  have x: "snd (exchange ?e ?S1 ''CA1'') = Inr (?S2, ?r)"
    by (simp add: run_defs)
  then have h2: "exchange ?e ?S1 (to_string (?b ''CallSid'')) = (fst (exchange ?e ?S1 ''CA1''), Inr (?S2, ?r))"
    by (simp add: to_string_def prod_eq_iff)
  have h1': "before_try ?S2 ?b' = Inr ?S1'"
    by (simp add: run_defs)
  have x': "snd (exchange ?e' ?S1' ''CA1'') = Inr ([''CA1'' \<mapsto> ?c'], ?r')"
    by (simp add: run_defs)
  then have h2': "exchange ?e' ?S1' (to_string (?b' ''CallSid''))
      = (fst (exchange ?e' ?S1' ''CA1''), Inr ([''CA1'' \<mapsto> ?c'], ?r'))"
    by (simp add: to_string_def prod_eq_iff)
  have sp: "spoken ?b = []" "known_history Map.empty ''CA1'' = []" "\<not> truthy (isComplete ?r)"
    by (simp_all add: spoken_def as_value_def known_history_def)
  have sp': "spoken ?b' = [\<lparr>role = ''user'', content = JStr ''Asha''\<rparr>]"
    "known_history ?S2 ''CA1'' = [?a]" "\<not> truthy (isComplete ?r')"
    by (simp_all add: spoken_def as_value_def known_history_def)
  from turn_history [where S = Map.empty and b = ?b and e = ?e, OF h1 h2] sp
  have c1: "reply (voice ?e Map.empty ?b) = Twiml [Gather gather_attributes [Say (JStr ''What is your name?'')]]"
    by simp
  from turn_history [where S = ?S2 and b = ?b' and e = ?e', OF h1' h2'] sp'
  have c2: "store (voice ?e' ?S2 ?b') ''CA1'' = Some ?c'"
    by simp
  from h1 x c1 c2 show ?thesis
    by simp
qed

section \<open>The request to the completion service\<close>

text \<open>
  C9: whatever request a turn sends to the completion service is the one built from
  the state of the call after lines 45 to 54, a turn sends at most one, and a turn
  whose call identifier is not a name inherited from \<^verbatim>\<open>Object.prototype\<close> sends exactly
  one. Its messages are, in this order: one system message with the fixed instruction
  text of lines 89 to 102; the history of the call as the store holds it, with the
  caller's new words at its end; and one system message whose text is
  \<^verbatim>\<open>Current collected data: \<close>, then \<^verbatim>\<open>JSON.stringify\<close> of the data collected so far, then the
  instruction to determine the next question and generate the next JSON response.
\<close>

theorem completion_request_messages:
  \<open>set (completion_requests (events (voice e S b))) \<subseteq> {request_for e (entered S b)}
   \<and> length (completion_requests (events (voice e S b))) \<le> 1
   \<and> (to_string (b ''CallSid'') \<notin> set object_prototype_names \<longrightarrow>
        completion_requests (events (voice e S b)) = [request_for e (entered S b)])
   \<and> messages (request_for e (entered S b)) =
        [\<lparr>role = ''system'',
          content = JStr
            (''\<newline>'' @
             ''        You are 'Asha', a friendly voice agent for the ASHA Sahayak program. Your task is to collect patient health information.\<newline>'' @
             ''        \<newline>'' @
             ''        Follow this script precisely:\<newline>'' @
             ''        1. If full_name is missing, introduce yourself and ask for it.\<newline>'' @
             ''        2. If age is missing, ask for it.\<newline>'' @
             ''        3. If gender is missing, ask for it.\<newline>'' @
             ''        // ... (rest of your detailed script from before) ...\<newline>'' @
             ''        10. When all information is collected, say "Thank you for answering. We have recorded your details." and set isComplete to true.\<newline>'' @
             ''\<newline>'' @
             ''        Rules:\<newline>'' @
             ''        - Ask ONLY ONE question at a time.\<newline>'' @
             ''        - Your response MUST be a valid JSON object with three keys: "responseText", "extractedData", and "isComplete".\<newline>'' @
             ''    '')\<rparr>] @
        known_history S (to_string (b ''CallSid'')) @ spoken b @
        [\<lparr>role = ''system'',
          content = JStr
            (''Current collected data: '' @
             JSON_stringify e (known_data S (to_string (b ''CallSid''))) @
             ''. Now, determine the next question based on the script and the user's last answer. Generate the next JSON response.'')\<rparr>]\<close>
  by (simp add: voice_requests store_get_Builtin_iff request_for_def entered_def
      systemPrompt_def reminder_def)

text \<open>
  C9, an instance: the second turn of call \<^verbatim>\<open>CA1\<close>, with the words \<^verbatim>\<open>Asha\<close>, where nothing
  has been collected yet and \<^verbatim>\<open>JSON.stringify\<close> gives \<^verbatim>\<open>{}\<close>.
\<close>

theorem completion_request_messages_witness:
  \<open>''CA1'' \<notin> set object_prototype_names
   \<and> map messages (completion_requests (events (voice
        \<lparr>JSON_stringify = (\<lambda>d. ''{}''),
         completion = Parsed (JObj [(''responseText'', JStr ''Where do you live?''),
                                    (''extractedData'', JObj [(''full_name'', JStr ''Asha'')]),
                                    (''isComplete'', JBool False)]),
         db = Db_ok, twiml_say = (\<lambda>v. Inr [Say v]), gather_say = (\<lambda>v. Inr [Say v])\<rparr>
        [''CA1'' \<mapsto> \<lparr>history = [\<lparr>role = ''assistant'', content = JStr ''What is your name?''\<rparr>],
                         collectedData = empty_object\<rparr>]
        [''CallSid'' \<mapsto> ''CA1'', ''SpeechResult'' \<mapsto> ''Asha''])))
     = [[\<lparr>role = ''system'',
          content = JStr
            (''\<newline>'' @
             ''        You are 'Asha', a friendly voice agent for the ASHA Sahayak program. Your task is to collect patient health information.\<newline>'' @
             ''        \<newline>'' @
             ''        Follow this script precisely:\<newline>'' @
             ''        1. If full_name is missing, introduce yourself and ask for it.\<newline>'' @
             ''        2. If age is missing, ask for it.\<newline>'' @
             ''        3. If gender is missing, ask for it.\<newline>'' @
             ''        // ... (rest of your detailed script from before) ...\<newline>'' @
             ''        10. When all information is collected, say "Thank you for answering. We have recorded your details." and set isComplete to true.\<newline>'' @
             ''\<newline>'' @
             ''        Rules:\<newline>'' @
             ''        - Ask ONLY ONE question at a time.\<newline>'' @
             ''        - Your response MUST be a valid JSON object with three keys: "responseText", "extractedData", and "isComplete".\<newline>'' @
             ''    '')\<rparr>,
         \<lparr>role = ''assistant'', content = JStr ''What is your name?''\<rparr>,
         \<lparr>role = ''user'', content = JStr ''Asha''\<rparr>,
         \<lparr>role = ''system'',
          content = JStr
            (''Current collected data: '' @ ''{}'' @
             ''. Now, determine the next question based on the script and the user's last answer. Generate the next JSON response.'')\<rparr>]]\<close>
proof -
  let ?e = \<open>\<lparr>JSON_stringify = (\<lambda>d. ''{}''),
         completion = Parsed (JObj [(''responseText'', JStr ''Where do you live?''),
                                    (''extractedData'', JObj [(''full_name'', JStr ''Asha'')]),
                                    (''isComplete'', JBool False)]),
         db = Db_ok, twiml_say = (\<lambda>v. Inr [Say v]), gather_say = (\<lambda>v. Inr [Say v])\<rparr>\<close>
  let ?S = \<open>[''CA1'' \<mapsto> \<lparr>history = [\<lparr>role = ''assistant'', content = JStr ''What is your name?''\<rparr>],
                         collectedData = empty_object\<rparr>]\<close>
  let ?b = \<open>[''CallSid'' \<mapsto> ''CA1'', ''SpeechResult'' \<mapsto> ''Asha'']\<close>
  have k: \<open>to_string (?b ''CallSid'') = ''CA1''\<close> \<open>''CA1'' \<notin> set object_prototype_names\<close>
    by (simp_all add: to_string_def object_prototype_names_def)
  have known: \<open>known_history ?S ''CA1'' @ spoken ?b =
      [\<lparr>role = ''assistant'', content = JStr ''What is your name?''\<rparr>,
       \<lparr>role = ''user'', content = JStr ''Asha''\<rparr>]\<close>
    \<open>JSON_stringify ?e (known_data ?S ''CA1'') = ''{}''\<close>
    by (simp_all add: known_history_def known_data_def spoken_def as_value_def)
  note T = completion_request_messages [where e = ?e and S = ?S and b = ?b, unfolded k]
  from T [THEN conjunct2, THEN conjunct2, THEN conjunct1, THEN mp, OF k(2)]
  have one: \<open>completion_requests (events (voice ?e ?S ?b)) = [request_for ?e (entered ?S ?b)]\<close> .
  from T [THEN conjunct2, THEN conjunct2, THEN conjunct2] known
  have msgs: \<open>messages (request_for ?e (entered ?S ?b)) =
       [\<lparr>role = ''system'',
          content = JStr
            (''\<newline>'' @
             ''        You are 'Asha', a friendly voice agent for the ASHA Sahayak program. Your task is to collect patient health information.\<newline>'' @
             ''        \<newline>'' @
             ''        Follow this script precisely:\<newline>'' @
             ''        1. If full_name is missing, introduce yourself and ask for it.\<newline>'' @
             ''        2. If age is missing, ask for it.\<newline>'' @
             ''        3. If gender is missing, ask for it.\<newline>'' @
             ''        // ... (rest of your detailed script from before) ...\<newline>'' @
             ''        10. When all information is collected, say "Thank you for answering. We have recorded your details." and set isComplete to true.\<newline>'' @
             ''\<newline>'' @
             ''        Rules:\<newline>'' @
             ''        - Ask ONLY ONE question at a time.\<newline>'' @
             ''        - Your response MUST be a valid JSON object with three keys: "responseText", "extractedData", and "isComplete".\<newline>'' @
             ''    '')\<rparr>,
         \<lparr>role = ''assistant'', content = JStr ''What is your name?''\<rparr>,
         \<lparr>role = ''user'', content = JStr ''Asha''\<rparr>,
         \<lparr>role = ''system'',
          content = JStr
            (''Current collected data: '' @ ''{}'' @
             ''. Now, determine the next question based on the script and the user's last answer. Generate the next JSON response.'')\<rparr>]\<close>
    by simp
  from k(2) one msgs show ?thesis
    by simp
qed

section \<open>A request without a call identifier\<close>

text \<open>
  C10: a webhook request without a \<^verbatim>\<open>CallSid\<close> field is handled exactly as one whose
  \<^verbatim>\<open>CallSid\<close> is the string \<^verbatim>\<open>undefined\<close>. It is answered with a document, it touches no
  entry of the store but the one under \<^verbatim>\<open>undefined\<close>, which exists afterwards unless this
  very turn deleted it, and the request it sends to the completion service replays the
  history and the data that earlier such requests left under that key.
\<close>

theorem voice_without_CallSid:
  assumes "b ''CallSid'' = None"
  shows "voice e S b = voice e S (b(''CallSid'' \<mapsto> ''undefined''))
       \<and> (\<exists>verbs. reply (voice e S b) = Twiml verbs)
       \<and> (\<forall>k. k \<noteq> ''undefined'' \<longrightarrow> store (voice e S b) k = S k)
       \<and> (store (voice e S b) ''undefined'' \<noteq> None
            \<or> store_deletes (events (voice e S b)) = [''undefined''])
       \<and> completion_requests (events (voice e S b)) =
            [request_for e \<lparr>history = known_history S ''undefined'' @ spoken b,
                            collectedData = known_data S ''undefined''\<rparr>]"
proof -
  have k: "to_string (b ''CallSid'') = ''undefined''"
    using assms by (simp add: to_string_def)
  have nb: "store_get S (to_string (b ''CallSid'')) \<noteq> Builtin"
    by (simp add: k store_get_Builtin_iff object_prototype_names_def)
  have k': "to_string ((b(''CallSid'' \<mapsto> ''undefined'')) ''CallSid'') = ''undefined''"
    by (simp add: to_string_def)
  have vt: "voice_try e S' (b(''CallSid'' \<mapsto> ''undefined'')) ''undefined'' = voice_try e S' b ''undefined''" for S'
    by (simp add: voice_try_def split: prod.splits sum.splits lookup.splits)
  have bt: "before_try S (b(''CallSid'' \<mapsto> ''undefined'')) = before_try S b"
    unfolding before_try_def k k' by simp
  have same: "voice e S b = voice e S (b(''CallSid'' \<mapsto> ''undefined''))"
    unfolding voice_def k k' vt bt ..
  have req: "completion_requests (events (voice e S b)) =
            [request_for e \<lparr>history = known_history S ''undefined'' @ spoken b,
                            collectedData = known_data S ''undefined''\<rparr>]"
    using nb by (simp add: voice_requests entered_def k)
  from nb have rest: "(\<exists>verbs. reply (voice e S b) = Twiml verbs)
       \<and> (\<forall>k. k \<noteq> ''undefined'' \<longrightarrow> store (voice e S b) k = S k)
       \<and> (store (voice e S b) ''undefined'' \<noteq> None
            \<or> store_deletes (events (voice e S b)) = [''undefined''])"
    by (cases rule: voice_cases [where e = e])
      (simp_all add: k store_deletes_append savePatientData_calls)
  from same req rest show ?thesis by blast
qed

text \<open>
  C10, an instance: two requests without \<^verbatim>\<open>CallSid\<close>, one after the other. The first
  leaves its history under \<^verbatim>\<open>undefined\<close>; the second, from another caller, sends that
  history on to the completion service with its own words appended.
\<close>

theorem voice_without_CallSid_witness:
  "[''SpeechResult'' \<mapsto> ''hello''] ''CallSid'' = None
   \<and> store (voice
        \<lparr>JSON_stringify = (\<lambda>d. ''{}''),
         completion = Parsed (JObj [(''responseText'', JStr ''What is your name?''),
                                    (''extractedData'', JObj []),
                                    (''isComplete'', JBool False)]),
         db = Db_ok, twiml_say = (\<lambda>v. Inr [Say v]), gather_say = (\<lambda>v. Inr [Say v])\<rparr>
        Map.empty [''SpeechResult'' \<mapsto> ''hello'']) ''undefined''
     = Some \<lparr>history = [\<lparr>role = ''user'', content = JStr ''hello''\<rparr>,
                        \<lparr>role = ''assistant'', content = JStr ''What is your name?''\<rparr>],
             collectedData = empty_object\<rparr>
   \<and> map messages (completion_requests (events (voice
        \<lparr>JSON_stringify = (\<lambda>d. ''{}''),
         completion = Parsed (JObj [(''responseText'', JStr ''What is your name?''),
                                    (''extractedData'', JObj []),
                                    (''isComplete'', JBool False)]),
         db = Db_ok, twiml_say = (\<lambda>v. Inr [Say v]), gather_say = (\<lambda>v. Inr [Say v])\<rparr>
        [''undefined'' \<mapsto>
           \<lparr>history = [\<lparr>role = ''user'', content = JStr ''hello''\<rparr>,
                       \<lparr>role = ''assistant'', content = JStr ''What is your name?''\<rparr>],
            collectedData = empty_object\<rparr>]
        [''SpeechResult'' \<mapsto> ''Ravi''])))
     = [[\<lparr>role = ''system'', content = JStr systemPrompt\<rparr>,
         \<lparr>role = ''user'', content = JStr ''hello''\<rparr>,
         \<lparr>role = ''assistant'', content = JStr ''What is your name?''\<rparr>,
         \<lparr>role = ''user'', content = JStr ''Ravi''\<rparr>,
         \<lparr>role = ''system'', content = JStr (reminder ''{}'')\<rparr>]]"
proof -
  let ?e = "\<lparr>JSON_stringify = (\<lambda>d. ''{}''),
         completion = Parsed (JObj [(''responseText'', JStr ''What is your name?''),
                                    (''extractedData'', JObj []),
                                    (''isComplete'', JBool False)]),
         db = Db_ok, twiml_say = (\<lambda>v. Inr [Say v]), gather_say = (\<lambda>v. Inr [Say v])\<rparr>"
  let ?b = "[''SpeechResult'' \<mapsto> ''hello'']"
  let ?b' = "[''SpeechResult'' \<mapsto> ''Ravi'']"
  let ?c = "\<lparr>history = [\<lparr>role = ''user'', content = JStr ''hello''\<rparr>,
                        \<lparr>role = ''assistant'', content = JStr ''What is your name?''\<rparr>],
             collectedData = empty_object\<rparr>"
  have h: "?b ''CallSid'' = None" and h': "?b' ''CallSid'' = None"
    by simp_all
  have first: "store (voice ?e Map.empty (?b(''CallSid'' \<mapsto> ''undefined''))) ''undefined'' = Some ?c"
    by (simp add: run_defs)
  have known: "known_history [''undefined'' \<mapsto> ?c] ''undefined'' @ spoken ?b' =
       [\<lparr>role = ''user'', content = JStr ''hello''\<rparr>,
        \<lparr>role = ''assistant'', content = JStr ''What is your name?''\<rparr>,
        \<lparr>role = ''user'', content = JStr ''Ravi''\<rparr>]"
      "known_data [''undefined'' \<mapsto> ?c] ''undefined'' = empty_object"
    by (simp_all add: known_history_def known_data_def spoken_def as_value_def)
  from voice_without_CallSid [where b = ?b and e = ?e and S = Map.empty, OF h]
  have "voice ?e Map.empty ?b = voice ?e Map.empty (?b(''CallSid'' \<mapsto> ''undefined''))"
    by blast
  with first have c1: "store (voice ?e Map.empty ?b) ''undefined'' = Some ?c"
    by (simp only:)
  from voice_without_CallSid [where b = ?b' and e = ?e and S = "[''undefined'' \<mapsto> ?c]", OF h']
  have "completion_requests (events (voice ?e [''undefined'' \<mapsto> ?c] ?b')) =
      [request_for ?e \<lparr>history = known_history [''undefined'' \<mapsto> ?c] ''undefined'' @ spoken ?b',
                       collectedData = known_data [''undefined'' \<mapsto> ?c] ''undefined''\<rparr>]"
    by blast
  then have c2: "map messages (completion_requests (events (voice ?e [''undefined'' \<mapsto> ?c] ?b'))) =
      [[\<lparr>role = ''system'', content = JStr systemPrompt\<rparr>,
         \<lparr>role = ''user'', content = JStr ''hello''\<rparr>,
         \<lparr>role = ''assistant'', content = JStr ''What is your name?''\<rparr>,
         \<lparr>role = ''user'', content = JStr ''Ravi''\<rparr>,
         \<lparr>role = ''system'', content = JStr (reminder ''{}'')\<rparr>]]"
    by (simp add: request_for_def known)
  from h c1 c2 show ?thesis by simp
qed

section \<open>Removing the state of a call\<close>

text \<open>
  C3 as stated fails: the entry is not removed on every turn whose completion response
  reports \<^verbatim>\<open>isComplete\<close>. The \<^verbatim>\<open>twiml.say\<close> of line 67 stands between the persistence call
  and the \<^verbatim>\<open>delete\<close> of line 69, inside the \<^verbatim>\<open>try\<close>. On the \<^verbatim>\<open>responseText\<close>
  \<^verbatim>\<open>Thank you\<close> followed by the control character U+0001 it throws: the statement has
  been issued, the caller gets the apology, and the entry stays in the store.
\<close>

theorem completing_turn_keeps_entry:
  "pool_queries (events (voice
        \<lparr>JSON_stringify = (\<lambda>d. ''{}''),
         completion = Parsed (JObj [(''responseText'', JStr (''Thank you'' @ [CHR 0x01])),
                                    (''extractedData'', JObj []),
                                    (''isComplete'', JBool True)]),
         db = Db_ok,
         twiml_say = (\<lambda>v. if v = JStr (''Thank you'' @ [CHR 0x01])
                            then Inl BuilderError else Inr [Say v]),
         gather_say = (\<lambda>v. Inr [Say v])\<rparr>
        [''CA1'' \<mapsto> \<lparr>history = [], collectedData = empty_object\<rparr>]
        [''CallSid'' \<mapsto> ''CA1'', ''SpeechResult'' \<mapsto> ''fever'']))
     = [(query, [JUndefined, JUndefined, JUndefined, JUndefined])]
   \<and> reply (voice
        \<lparr>JSON_stringify = (\<lambda>d. ''{}''),
         completion = Parsed (JObj [(''responseText'', JStr (''Thank you'' @ [CHR 0x01])),
                                    (''extractedData'', JObj []),
                                    (''isComplete'', JBool True)]),
         db = Db_ok,
         twiml_say = (\<lambda>v. if v = JStr (''Thank you'' @ [CHR 0x01])
                            then Inl BuilderError else Inr [Say v]),
         gather_say = (\<lambda>v. Inr [Say v])\<rparr>
        [''CA1'' \<mapsto> \<lparr>history = [], collectedData = empty_object\<rparr>]
        [''CallSid'' \<mapsto> ''CA1'', ''SpeechResult'' \<mapsto> ''fever''])
     = Twiml [Say (JStr apology), Hangup]
   \<and> store_deletes (events (voice
        \<lparr>JSON_stringify = (\<lambda>d. ''{}''),
         completion = Parsed (JObj [(''responseText'', JStr (''Thank you'' @ [CHR 0x01])),
                                    (''extractedData'', JObj []),
                                    (''isComplete'', JBool True)]),
         db = Db_ok,
         twiml_say = (\<lambda>v. if v = JStr (''Thank you'' @ [CHR 0x01])
                            then Inl BuilderError else Inr [Say v]),
         gather_say = (\<lambda>v. Inr [Say v])\<rparr>
        [''CA1'' \<mapsto> \<lparr>history = [], collectedData = empty_object\<rparr>]
        [''CallSid'' \<mapsto> ''CA1'', ''SpeechResult'' \<mapsto> ''fever''])) = []
   \<and> store (voice
        \<lparr>JSON_stringify = (\<lambda>d. ''{}''),
         completion = Parsed (JObj [(''responseText'', JStr (''Thank you'' @ [CHR 0x01])),
                                    (''extractedData'', JObj []),
                                    (''isComplete'', JBool True)]),
         db = Db_ok,
         twiml_say = (\<lambda>v. if v = JStr (''Thank you'' @ [CHR 0x01])
                            then Inl BuilderError else Inr [Say v]),
         gather_say = (\<lambda>v. Inr [Say v])\<rparr>
        [''CA1'' \<mapsto> \<lparr>history = [], collectedData = empty_object\<rparr>]
        [''CallSid'' \<mapsto> ''CA1'', ''SpeechResult'' \<mapsto> ''fever'']) ''CA1''
     = Some \<lparr>history = [\<lparr>role = ''user'', content = JStr ''fever''\<rparr>,
                        \<lparr>role = ''assistant'', content = JStr (''Thank you'' @ [CHR 0x01])\<rparr>],
             collectedData = empty_object\<rparr>"
  by (simp add: run_defs savePatientData_def js_get_def)

text \<open>
  C3, amended: in a turn whose request to the completion service was sent and answered
  with a response that reports \<^verbatim>\<open>isComplete\<close> (true, or any truthy value) and whose
  \<^verbatim>\<open>responseText\<close> the \<^verbatim>\<open>twiml.say\<close> of line 67 accepts, the entry of the call is deleted
  exactly once, the \<^verbatim>\<open>delete\<close> is the last event and comes after the one \<^verbatim>\<open>pool.query\<close>,
  and the store has no entry for the call afterwards. In every other turn nothing is
  deleted and an entry that the call had is still there. No turn touches the entry of
  another call identifier.
\<close>

theorem entry_removed_on_completion:
  "(completion_requests (events (voice e S b)) \<noteq> [] \<and> completion e = Parsed rd
      \<and> read_response rd = Inr r \<and> truthy (isComplete r)
      \<and> twiml_say e (responseText r) = Inr said \<longrightarrow>
        store_deletes (events (voice e S b)) = [to_string (b ''CallSid'')]
      \<and> (\<exists>pre q vals mid.
            events (voice e S b) = pre @ [Pool_query q vals] @ mid @ [Store_delete (to_string (b ''CallSid''))]
          \<and> store_deletes pre = [] \<and> store_deletes mid = [])
      \<and> store (voice e S b) (to_string (b ''CallSid'')) = None)
   \<and> (\<not> (completion_requests (events (voice e S b)) \<noteq> []
           \<and> (\<exists>rd r said. completion e = Parsed rd \<and> read_response rd = Inr r
                  \<and> truthy (isComplete r) \<and> twiml_say e (responseText r) = Inr said)) \<longrightarrow>
        store_deletes (events (voice e S b)) = []
      \<and> (S (to_string (b ''CallSid'')) \<noteq> None \<longrightarrow> store (voice e S b) (to_string (b ''CallSid'')) \<noteq> None))
   \<and> (\<forall>k. k \<noteq> to_string (b ''CallSid'') \<longrightarrow> store (voice e S b) k = S k)"
proof (cases "store_get S (to_string (b ''CallSid'')) = Builtin")
  case True
  then show ?thesis
    by (simp add: voice_builtin)
next
  case False
  then show ?thesis
  proof (cases rule: voice_cases [where e = e])
    case fails
    then show ?thesis by auto
  next
    case (gathers rd' r' said')
    then show ?thesis by auto
  next
    case (gather_throws rd' r' err)
    then show ?thesis by auto
  next
    case (say_throws rd' r' err)
    then show ?thesis
      by (auto simp: store_deletes_append savePatientData_calls)
  next
    case (completes rd' r' said')
    let ?d = "collectedData (recorded (entered S b) r')"
    obtain l where sv: "savePatientData e (b ''To'') ?d =
        [Pool_query query [js_get ?d ''full_name'', as_value (b ''To''), js_get ?d ''address'',
                           js_get ?d ''health_condition''], l]"
      "store_deletes [l] = []"
      by (cases "db e") (simp_all add: savePatientData_def)
    have "events (voice e S b) =
        [Completions_create (request_for e (entered S b)), Console_log_state ?d] @
        [Pool_query query [js_get ?d ''full_name'', as_value (b ''To''), js_get ?d ''address'',
                           js_get ?d ''health_condition'']] @ [l] @
        [Store_delete (to_string (b ''CallSid''))]"
      using completes sv by simp
    moreover have "store_deletes [Completions_create (request_for e (entered S b)), Console_log_state ?d] = []"
      by simp
    ultimately have ord: "\<exists>pre q vals mid.
            events (voice e S b) = pre @ [Pool_query q vals] @ mid @ [Store_delete (to_string (b ''CallSid''))]
          \<and> store_deletes pre = [] \<and> store_deletes mid = []"
      using sv(2) by blast
    from completes have "store_deletes (events (voice e S b)) = [to_string (b ''CallSid'')]"
      "store (voice e S b) (to_string (b ''CallSid'')) = None"
      "\<forall>k. k \<noteq> to_string (b ''CallSid'') \<longrightarrow> store (voice e S b) k = S k"
      "completion_requests (events (voice e S b)) \<noteq> []"
      by (simp_all add: store_deletes_append savePatientData_calls)
    with ord completes(1-4) show ?thesis by auto
  qed
qed

text \<open>
  C3, two instances on a store with the calls \<^verbatim>\<open>CA1\<close> and \<^verbatim>\<open>CA2\<close>: a turn of \<^verbatim>\<open>CA1\<close> that
  the completion reports complete and whose text \<^verbatim>\<open>twiml.say\<close> accepts, and a turn of
  \<^verbatim>\<open>CA1\<close> whose completion call rejects.
\<close>

theorem entry_removed_on_completion_witness:
  "completion_requests (events (voice
        \<lparr>JSON_stringify = (\<lambda>d. ''{}''),
         completion = Parsed (JObj [(''responseText'', JStr ''Thank you for answering.''),
                                    (''extractedData'', JObj [(''health_condition'', JStr ''fever'')]),
                                    (''isComplete'', JBool True)]),
         db = Db_ok, twiml_say = (\<lambda>v. Inr [Say v]), gather_say = (\<lambda>v. Inr [Say v])\<rparr>
        [''CA1'' \<mapsto> \<lparr>history = [], collectedData = empty_object\<rparr>,
         ''CA2'' \<mapsto> \<lparr>history = [], collectedData = empty_object\<rparr>]
        [''CallSid'' \<mapsto> ''CA1'', ''SpeechResult'' \<mapsto> ''fever''])) \<noteq> []
   \<and> read_response (JObj [(''responseText'', JStr ''Thank you for answering.''),
                           (''extractedData'', JObj [(''health_condition'', JStr ''fever'')]),
                           (''isComplete'', JBool True)])
       = Inr \<lparr>responseText = JStr ''Thank you for answering.'',
              extractedData = JObj [(''health_condition'', JStr ''fever'')],
              isComplete = JBool True\<rparr>
   \<and> store_deletes (events (voice
        \<lparr>JSON_stringify = (\<lambda>d. ''{}''),
         completion = Parsed (JObj [(''responseText'', JStr ''Thank you for answering.''),
                                    (''extractedData'', JObj [(''health_condition'', JStr ''fever'')]),
                                    (''isComplete'', JBool True)]),
         db = Db_ok, twiml_say = (\<lambda>v. Inr [Say v]), gather_say = (\<lambda>v. Inr [Say v])\<rparr>
        [''CA1'' \<mapsto> \<lparr>history = [], collectedData = empty_object\<rparr>,
         ''CA2'' \<mapsto> \<lparr>history = [], collectedData = empty_object\<rparr>]
        [''CallSid'' \<mapsto> ''CA1'', ''SpeechResult'' \<mapsto> ''fever''])) = [''CA1'']
   \<and> store (voice
        \<lparr>JSON_stringify = (\<lambda>d. ''{}''),
         completion = Parsed (JObj [(''responseText'', JStr ''Thank you for answering.''),
                                    (''extractedData'', JObj [(''health_condition'', JStr ''fever'')]),
                                    (''isComplete'', JBool True)]),
         db = Db_ok, twiml_say = (\<lambda>v. Inr [Say v]), gather_say = (\<lambda>v. Inr [Say v])\<rparr>
        [''CA1'' \<mapsto> \<lparr>history = [], collectedData = empty_object\<rparr>,
         ''CA2'' \<mapsto> \<lparr>history = [], collectedData = empty_object\<rparr>]
        [''CallSid'' \<mapsto> ''CA1'', ''SpeechResult'' \<mapsto> ''fever'']) ''CA1'' = None
   \<and> store (voice
        \<lparr>JSON_stringify = (\<lambda>d. ''{}''),
         completion = Parsed (JObj [(''responseText'', JStr ''Thank you for answering.''),
                                    (''extractedData'', JObj [(''health_condition'', JStr ''fever'')]),
                                    (''isComplete'', JBool True)]),
         db = Db_ok, twiml_say = (\<lambda>v. Inr [Say v]), gather_say = (\<lambda>v. Inr [Say v])\<rparr>
        [''CA1'' \<mapsto> \<lparr>history = [], collectedData = empty_object\<rparr>,
         ''CA2'' \<mapsto> \<lparr>history = [], collectedData = empty_object\<rparr>]
        [''CallSid'' \<mapsto> ''CA1'', ''SpeechResult'' \<mapsto> ''fever'']) ''CA2''
       = Some \<lparr>history = [], collectedData = empty_object\<rparr>
   \<and> store_deletes (events (voice
        \<lparr>JSON_stringify = (\<lambda>d. ''{}''), completion = Rejects, db = Db_ok,
         twiml_say = (\<lambda>v. Inr [Say v]), gather_say = (\<lambda>v. Inr [Say v])\<rparr>
        [''CA1'' \<mapsto> \<lparr>history = [], collectedData = empty_object\<rparr>,
         ''CA2'' \<mapsto> \<lparr>history = [], collectedData = empty_object\<rparr>]
        [''CallSid'' \<mapsto> ''CA1'', ''SpeechResult'' \<mapsto> ''fever''])) = []
   \<and> store (voice
        \<lparr>JSON_stringify = (\<lambda>d. ''{}''), completion = Rejects, db = Db_ok,
         twiml_say = (\<lambda>v. Inr [Say v]), gather_say = (\<lambda>v. Inr [Say v])\<rparr>
        [''CA1'' \<mapsto> \<lparr>history = [], collectedData = empty_object\<rparr>,
         ''CA2'' \<mapsto> \<lparr>history = [], collectedData = empty_object\<rparr>]
        [''CallSid'' \<mapsto> ''CA1'', ''SpeechResult'' \<mapsto> ''fever'']) ''CA1'' \<noteq> None"
proof -
  let ?rd = "JObj [(''responseText'', JStr ''Thank you for answering.''),
                   (''extractedData'', JObj [(''health_condition'', JStr ''fever'')]),
                   (''isComplete'', JBool True)]"
  let ?r = "\<lparr>responseText = JStr ''Thank you for answering.'',
            extractedData = JObj [(''health_condition'', JStr ''fever'')],
            isComplete = JBool True\<rparr>"
  let ?e = "\<lparr>JSON_stringify = (\<lambda>d. ''{}''),
         completion = Parsed (JObj [(''responseText'', JStr ''Thank you for answering.''),
                                    (''extractedData'', JObj [(''health_condition'', JStr ''fever'')]),
                                    (''isComplete'', JBool True)]),
         db = Db_ok, twiml_say = (\<lambda>v. Inr [Say v]), gather_say = (\<lambda>v. Inr [Say v])\<rparr>"
  let ?e' = "\<lparr>JSON_stringify = (\<lambda>d. ''{}''), completion = Rejects, db = Db_ok,
         twiml_say = (\<lambda>v. Inr [Say v]), gather_say = (\<lambda>v. Inr [Say v])\<rparr>"
  let ?S = "[''CA1'' \<mapsto> \<lparr>history = [], collectedData = empty_object\<rparr>,
         ''CA2'' \<mapsto> \<lparr>history = [], collectedData = empty_object\<rparr>]"
  let ?b = "[''CallSid'' \<mapsto> ''CA1'', ''SpeechResult'' \<mapsto> ''fever'']"
  have k: "to_string (?b ''CallSid'') = ''CA1''"
    by (simp add: to_string_def)
  have nb: "store_get ?S ''CA1'' \<noteq> Builtin"
    by (simp add: store_get_def)
  have h1: "completion_requests (events (voice ?e ?S ?b)) \<noteq> []"
    using nb by (simp add: voice_requests to_string_def)
  have h2: "completion ?e = Parsed ?rd" "read_response ?rd = Inr ?r" "truthy (isComplete ?r)"
    "twiml_say ?e (responseText ?r) = Inr [Say (JStr ''Thank you for answering.'')]"
    by (simp_all add: read_response_def)
  have h3: "\<not> (completion_requests (events (voice ?e' ?S ?b)) \<noteq> []
           \<and> (\<exists>rd r said. completion ?e' = Parsed rd \<and> read_response rd = Inr r
                  \<and> truthy (isComplete r) \<and> twiml_say ?e' (responseText r) = Inr said))"
    by simp
  have s: "?S ''CA1'' \<noteq> None" "''CA2'' \<noteq> ''CA1''" "?S ''CA2'' = Some \<lparr>history = [], collectedData = empty_object\<rparr>"
    by simp_all
  note T = entry_removed_on_completion [where e = ?e and S = ?S and b = ?b and rd = ?rd and r = ?r
      and said = "[Say (JStr ''Thank you for answering.'')]", unfolded k]
  from h1 h2 have hyp: "completion_requests (events (voice ?e ?S ?b)) \<noteq> [] \<and> completion ?e = Parsed ?rd
      \<and> read_response ?rd = Inr ?r \<and> truthy (isComplete ?r)
      \<and> twiml_say ?e (responseText ?r) = Inr [Say (JStr ''Thank you for answering.'')]"
    by (intro conjI)
  from T [THEN conjunct1, THEN mp, OF hyp]
  have c1: "store_deletes (events (voice ?e ?S ?b)) = [''CA1'']"
    and c2: "store (voice ?e ?S ?b) ''CA1'' = None"
    by (rule conjunct1, rule conjunct2 [THEN conjunct2])
  from T [THEN conjunct2, THEN conjunct2, THEN spec, THEN mp, OF s(2)] s(3)
  have c3: "store (voice ?e ?S ?b) ''CA2'' = Some \<lparr>history = [], collectedData = empty_object\<rparr>"
    by (simp only:)
  note T' = entry_removed_on_completion [where e = ?e' and S = ?S and b = ?b, unfolded k]
  from T' [THEN conjunct2, THEN conjunct1, THEN mp, OF h3]
  have c4: "store_deletes (events (voice ?e' ?S ?b)) = []"
    and "?S ''CA1'' \<noteq> None \<longrightarrow> store (voice ?e' ?S ?b) ''CA1'' \<noteq> None"
    by (rule conjunct1, rule conjunct2)
  from this(2) s(1) have c5: "store (voice ?e' ?S ?b) ''CA1'' \<noteq> None"
    by (rule mp)
  from h1 h2(2) c1 c2 c3 c4 c5 show ?thesis
    by (intro conjI)
qed

section \<open>Failure of the persistence call\<close>

lemma getLlmResponse_db: "getLlmResponse (e\<lparr>db := d\<rparr>) S k = getLlmResponse e S k"
  by (simp add: getLlmResponse_def split: lookup.splits)

lemma exchange_db: "exchange (e\<lparr>db := d\<rparr>) S k = exchange e S k"
  by (simp add: exchange_def getLlmResponse_db split: sum.splits)

lemma voice_try_db:
  "left (voice_try (e\<lparr>db := d\<rparr>) S b k) = left (voice_try e S b k)"
  "document (voice_try (e\<lparr>db := d\<rparr>) S b k) = document (voice_try e S b k)"
  "thrown (voice_try (e\<lparr>db := d\<rparr>) S b k) = thrown (voice_try e S b k)"
  by (simp_all add: voice_try_def exchange_db split: prod.splits sum.splits lookup.splits)

lemma voice_db:
  "reply (voice (e\<lparr>db := d\<rparr>) S b) = reply (voice e S b)"
  "store (voice (e\<lparr>db := d\<rparr>) S b) = store (voice e S b)"
  by (simp_all add: voice_def Let_def voice_try_db split: sum.splits option.splits)

text \<open>
  C4 as stated fails: not every turn whose completion response reports \<^verbatim>\<open>isComplete\<close>
  ends with speak \<^verbatim>\<open>responseText\<close>, hangup and the removal of the entry. When
  \<^verbatim>\<open>responseText\<close> is the array \<^verbatim>\<open>["Thank you"]\<close>, the \<^verbatim>\<open>twiml.say\<close> of line 67 throws after
  the persistence call: the caller gets the apology and the entry stays in the store,
  although the database accepted the statement.
\<close>

theorem completing_turn_say_throws:
  "reply (voice
        \<lparr>JSON_stringify = (\<lambda>d. ''{}''),
         completion = Parsed (JObj [(''responseText'', JArr [JStr ''Thank you'']),
                                    (''extractedData'', JObj []),
                                    (''isComplete'', JBool True)]),
         db = Db_ok,
         twiml_say = (\<lambda>v. if v = JArr [JStr ''Thank you''] then Inl BuilderError else Inr [Say v]),
         gather_say = (\<lambda>v. Inr [Say v])\<rparr>
        [''CA1'' \<mapsto> \<lparr>history = [], collectedData = empty_object\<rparr>]
        [''CallSid'' \<mapsto> ''CA1'', ''SpeechResult'' \<mapsto> ''fever''])
     = Twiml [Say (JStr apology), Hangup]
   \<and> store (voice
        \<lparr>JSON_stringify = (\<lambda>d. ''{}''),
         completion = Parsed (JObj [(''responseText'', JArr [JStr ''Thank you'']),
                                    (''extractedData'', JObj []),
                                    (''isComplete'', JBool True)]),
         db = Db_ok,
         twiml_say = (\<lambda>v. if v = JArr [JStr ''Thank you''] then Inl BuilderError else Inr [Say v]),
         gather_say = (\<lambda>v. Inr [Say v])\<rparr>
        [''CA1'' \<mapsto> \<lparr>history = [], collectedData = empty_object\<rparr>]
        [''CallSid'' \<mapsto> ''CA1'', ''SpeechResult'' \<mapsto> ''fever'']) ''CA1''
     = Some \<lparr>history = [\<lparr>role = ''user'', content = JStr ''fever''\<rparr>,
                        \<lparr>role = ''assistant'', content = JArr [JStr ''Thank you'']\<rparr>],
             collectedData = empty_object\<rparr>"
  by (simp add: run_defs)

text \<open>
  C4, amended: failure of the persistence call never surfaces: the document and the
  store of every turn are the same whatever the database does (\<open>d\<close> is either outcome
  of \<^verbatim>\<open>pool.query\<close>). In a turn whose completion response reports \<^verbatim>\<open>isComplete\<close> and
  whose \<^verbatim>\<open>responseText\<close> the \<^verbatim>\<open>twiml.say\<close> of line 67 accepts, the document is what
  \<^verbatim>\<open>twiml.say\<close> made of \<^verbatim>\<open>responseText\<close> followed by the hangup, the entry of the call is
  removed, and the same statement is issued; a failure shows only as a line of
  \<^verbatim>\<open>console.error\<close>.
\<close>

theorem persistence_failure_swallowed:
  "reply (voice (e\<lparr>db := d\<rparr>) S b) = reply (voice e S b)
   \<and> store (voice (e\<lparr>db := d\<rparr>) S b) = store (voice e S b)
   \<and> (completion_requests (events (voice e S b)) \<noteq> [] \<and> completion e = Parsed rd
        \<and> read_response rd = Inr r \<and> truthy (isComplete r)
        \<and> twiml_say e (responseText r) = Inr said \<longrightarrow>
          reply (voice (e\<lparr>db := d\<rparr>) S b) = Twiml (said @ [Hangup])
        \<and> store (voice (e\<lparr>db := d\<rparr>) S b) = S(to_string (b ''CallSid'') := None)
        \<and> pool_queries (events (voice (e\<lparr>db := d\<rparr>) S b)) = pool_queries (events (voice e S b))
        \<and> Console_error ''Error saving data to database:''
             \<in> set (events (voice (e\<lparr>db := Db_fails\<rparr>) S b)))"
proof -
  have "reply (voice (e\<lparr>db := d\<rparr>) S b) = Twiml (said @ [Hangup])
        \<and> store (voice (e\<lparr>db := d\<rparr>) S b) = S(to_string (b ''CallSid'') := None)
        \<and> pool_queries (events (voice (e\<lparr>db := d\<rparr>) S b)) = pool_queries (events (voice e S b))
        \<and> Console_error ''Error saving data to database:''
             \<in> set (events (voice (e\<lparr>db := Db_fails\<rparr>) S b))"
    if sent: "completion_requests (events (voice e S b)) \<noteq> []"
      and rd: "completion e = Parsed rd" and r: "read_response rd = Inr r"
      and fin: "truthy (isComplete r)" and said: "twiml_say e (responseText r) = Inr said"
  proof -
    from sent have nb: "store_get S (to_string (b ''CallSid'')) \<noteq> Builtin"
      by (auto simp: voice_requests split: if_splits)
    have env: "completion (e\<lparr>db := d'\<rparr>) = Parsed rd"
      "twiml_say (e\<lparr>db := d'\<rparr>) (responseText r) = Inr said" for d'
      using rd said by simp_all
    have rq: "request_for (e\<lparr>db := d'\<rparr>) c = request_for e c" for d' c
      by (simp add: request_for_def)
    note v = voice_completes [where S = S and b = b and rd = rd and r = r and said = said,
        OF nb _ r fin]
    have fails: "Console_error ''Error saving data to database:''
        \<in> set (savePatientData (e\<lparr>db := Db_fails\<rparr>) p x)" for p x
      by (simp add: savePatientData_def)
    have a: "reply (voice (e\<lparr>db := d\<rparr>) S b) = Twiml (said @ [Hangup])"
      and b: "store (voice (e\<lparr>db := d\<rparr>) S b) = S(to_string (b ''CallSid'') := None)"
      using v [of "e\<lparr>db := d\<rparr>"] env by simp_all
    have c: "pool_queries (events (voice (e\<lparr>db := d\<rparr>) S b)) = pool_queries (events (voice e S b))"
      using v [of "e\<lparr>db := d\<rparr>"] v [of e] env rd said
      by (simp add: pool_queries_append savePatientData_calls)
    have d: "Console_error ''Error saving data to database:''
              \<in> set (events (voice (e\<lparr>db := Db_fails\<rparr>) S b))"
      using v [of "e\<lparr>db := Db_fails\<rparr>"] env fails by simp
    from a b c d show ?thesis by (intro conjI)
  qed
  note inner = this
  have third: "completion_requests (events (voice e S b)) \<noteq> [] \<and> completion e = Parsed rd
        \<and> read_response rd = Inr r \<and> truthy (isComplete r)
        \<and> twiml_say e (responseText r) = Inr said \<longrightarrow>
          reply (voice (e\<lparr>db := d\<rparr>) S b) = Twiml (said @ [Hangup])
        \<and> store (voice (e\<lparr>db := d\<rparr>) S b) = S(to_string (b ''CallSid'') := None)
        \<and> pool_queries (events (voice (e\<lparr>db := d\<rparr>) S b)) = pool_queries (events (voice e S b))
        \<and> Console_error ''Error saving data to database:''
             \<in> set (events (voice (e\<lparr>db := Db_fails\<rparr>) S b))"
  proof
    assume h: "completion_requests (events (voice e S b)) \<noteq> [] \<and> completion e = Parsed rd
        \<and> read_response rd = Inr r \<and> truthy (isComplete r)
        \<and> twiml_say e (responseText r) = Inr said"
    show "reply (voice (e\<lparr>db := d\<rparr>) S b) = Twiml (said @ [Hangup])
        \<and> store (voice (e\<lparr>db := d\<rparr>) S b) = S(to_string (b ''CallSid'') := None)
        \<and> pool_queries (events (voice (e\<lparr>db := d\<rparr>) S b)) = pool_queries (events (voice e S b))
        \<and> Console_error ''Error saving data to database:''
             \<in> set (events (voice (e\<lparr>db := Db_fails\<rparr>) S b))"
      using h by (intro inner) simp_all
  qed
  from voice_db [where e = e and d = d and S = S and b = b] third
  show ?thesis by (intro conjI)
qed

text \<open>
  C4, an instance: the completing turn of call \<^verbatim>\<open>CA1\<close>, whose text \<^verbatim>\<open>twiml.say\<close> accepts,
  with a database that fails.
\<close>

theorem persistence_failure_swallowed_witness:
  "completion_requests (events (voice
        \<lparr>JSON_stringify = (\<lambda>d. ''{}''),
         completion = Parsed (JObj [(''responseText'', JStr ''Thank you for answering.''),
                                    (''extractedData'', JObj []),
                                    (''isComplete'', JBool True)]),
         db = Db_ok, twiml_say = (\<lambda>v. Inr [Say v]), gather_say = (\<lambda>v. Inr [Say v])\<rparr>
        [''CA1'' \<mapsto> \<lparr>history = [], collectedData = empty_object\<rparr>]
        [''CallSid'' \<mapsto> ''CA1'', ''SpeechResult'' \<mapsto> ''fever''])) \<noteq> []
   \<and> reply (voice
        \<lparr>JSON_stringify = (\<lambda>d. ''{}''),
         completion = Parsed (JObj [(''responseText'', JStr ''Thank you for answering.''),
                                    (''extractedData'', JObj []),
                                    (''isComplete'', JBool True)]),
         db = Db_fails, twiml_say = (\<lambda>v. Inr [Say v]), gather_say = (\<lambda>v. Inr [Say v])\<rparr>
        [''CA1'' \<mapsto> \<lparr>history = [], collectedData = empty_object\<rparr>]
        [''CallSid'' \<mapsto> ''CA1'', ''SpeechResult'' \<mapsto> ''fever''])
       = Twiml [Say (JStr ''Thank you for answering.''), Hangup]
   \<and> store (voice
        \<lparr>JSON_stringify = (\<lambda>d. ''{}''),
         completion = Parsed (JObj [(''responseText'', JStr ''Thank you for answering.''),
                                    (''extractedData'', JObj []),
                                    (''isComplete'', JBool True)]),
         db = Db_fails, twiml_say = (\<lambda>v. Inr [Say v]), gather_say = (\<lambda>v. Inr [Say v])\<rparr>
        [''CA1'' \<mapsto> \<lparr>history = [], collectedData = empty_object\<rparr>]
        [''CallSid'' \<mapsto> ''CA1'', ''SpeechResult'' \<mapsto> ''fever'']) ''CA1'' = None"
proof -
  let ?rd = "JObj [(''responseText'', JStr ''Thank you for answering.''),
                   (''extractedData'', JObj []), (''isComplete'', JBool True)]"
  let ?r = "\<lparr>responseText = JStr ''Thank you for answering.'', extractedData = JObj [],
            isComplete = JBool True\<rparr>"
  let ?e = "\<lparr>JSON_stringify = (\<lambda>d. ''{}''),
         completion = Parsed (JObj [(''responseText'', JStr ''Thank you for answering.''),
                                    (''extractedData'', JObj []),
                                    (''isComplete'', JBool True)]),
         db = Db_ok, twiml_say = (\<lambda>v. Inr [Say v]), gather_say = (\<lambda>v. Inr [Say v])\<rparr>"
  let ?S = "[''CA1'' \<mapsto> \<lparr>history = [], collectedData = empty_object\<rparr>]"
  let ?b = "[''CallSid'' \<mapsto> ''CA1'', ''SpeechResult'' \<mapsto> ''fever'']"
  have k: "to_string (?b ''CallSid'') = ''CA1''"
    by (simp add: to_string_def)
  have nb: "store_get ?S ''CA1'' \<noteq> Builtin"
    by (simp add: store_get_def)
  have h1: "completion_requests (events (voice ?e ?S ?b)) \<noteq> []"
    using nb by (simp add: voice_requests to_string_def)
  have h2: "completion ?e = Parsed ?rd" "read_response ?rd = Inr ?r" "truthy (isComplete ?r)"
    "twiml_say ?e (responseText ?r) = Inr [Say (JStr ''Thank you for answering.'')]"
    by (simp_all add: read_response_def)
  from h1 h2 have hyp: "completion_requests (events (voice ?e ?S ?b)) \<noteq> [] \<and> completion ?e = Parsed ?rd
      \<and> read_response ?rd = Inr ?r \<and> truthy (isComplete ?r)
      \<and> twiml_say ?e (responseText ?r) = Inr [Say (JStr ''Thank you for answering.'')]"
    by (intro conjI)
  have upd: "?e\<lparr>db := Db_fails\<rparr> = \<lparr>JSON_stringify = (\<lambda>d. ''{}''),
         completion = Parsed (JObj [(''responseText'', JStr ''Thank you for answering.''),
                                    (''extractedData'', JObj []),
                                    (''isComplete'', JBool True)]),
         db = Db_fails, twiml_say = (\<lambda>v. Inr [Say v]), gather_say = (\<lambda>v. Inr [Say v])\<rparr>"
    by simp
  note T = persistence_failure_swallowed [where e = ?e and S = ?S and b = ?b and d = Db_fails
      and rd = ?rd and r = ?r and said = "[Say (JStr ''Thank you for answering.'')]",
      unfolded k upd, THEN conjunct2, THEN conjunct2, THEN mp, OF hyp]
  from T [THEN conjunct1]
  have c1: "reply (voice \<lparr>JSON_stringify = (\<lambda>d. ''{}''),
         completion = Parsed (JObj [(''responseText'', JStr ''Thank you for answering.''),
                                    (''extractedData'', JObj []),
                                    (''isComplete'', JBool True)]),
         db = Db_fails, twiml_say = (\<lambda>v. Inr [Say v]), gather_say = (\<lambda>v. Inr [Say v])\<rparr> ?S ?b)
      = Twiml [Say (JStr ''Thank you for answering.''), Hangup]"
    by simp
  from T [THEN conjunct2, THEN conjunct1]
  have c2: "store (voice \<lparr>JSON_stringify = (\<lambda>d. ''{}''),
         completion = Parsed (JObj [(''responseText'', JStr ''Thank you for answering.''),
                                    (''extractedData'', JObj []),
                                    (''isComplete'', JBool True)]),
         db = Db_fails, twiml_say = (\<lambda>v. Inr [Say v]), gather_say = (\<lambda>v. Inr [Say v])\<rparr> ?S ?b) ''CA1'' = None"
    by simp
  from h1 c1 c2 show ?thesis
    by (intro conjI)
qed

section \<open>Starting a call\<close>

text \<open>
  C5 as stated fails: the handler reads the fields \<^verbatim>\<open>phoneNumber\<close> and \<^verbatim>\<open>ngrokUrl\<close> (line
  139). A body \<^verbatim>\<open>{phoneNumber, callbackBaseUrl}\<close> has no \<^verbatim>\<open>ngrokUrl\<close>, so it is answered
  with 400 and no call is placed.
\<close>

theorem initiate_call_callbackBaseUrl_rejected:
  "initiate_call (Some ''+15005550006'') (Call_created ''CA0001'')
     [''phoneNumber'' \<mapsto> ''+15551230000'', ''callbackBaseUrl'' \<mapsto> ''https://example.test'']
   = (\<lparr>status = 400, json = [(''message'', JStr ''Both phoneNumber and ngrokUrl are required.'')]\<rparr>, [])"
  by (simp add: initiate_call_def as_value_def)

text \<open>
  C5, amended: given a body whose fields \<^verbatim>\<open>phoneNumber\<close> and \<^verbatim>\<open>ngrokUrl\<close> are both present
  and not the empty string, the handler places one call, to \<^verbatim>\<open>phoneNumber\<close>, from the
  configured number, whose webhook is \<^verbatim>\<open>ngrokUrl + "/voice"\<close>, and answers 200 with the
  message and the \<^verbatim>\<open>callSid\<close> when the call is created, 500 with the message and the
  error text when creating it fails. Given a body in which either field is missing or
  the empty string, it answers 400 with the message
  \<^verbatim>\<open>Both phoneNumber and ngrokUrl are required.\<close> and does nothing else: no call is
  placed and nothing is logged.
\<close>

theorem initiate_call_ngrokUrl:
  "(b ''phoneNumber'' = Some p \<and> p \<noteq> [] \<and> b ''ngrokUrl'' = Some u \<and> u \<noteq> [] \<longrightarrow>
      calls_placed (snd (initiate_call twilioPhoneNumber placed b))
        = [\<lparr>url = u @ ''/voice'', to = p, from_number = twilioPhoneNumber\<rparr>]
    \<and> fst (initiate_call twilioPhoneNumber (Call_created sid) b)
        = \<lparr>status = 200,
           json = [(''message'', JStr ''Call has been successfully initiated!''), (''callSid'', JStr sid)]\<rparr>
    \<and> fst (initiate_call twilioPhoneNumber (Call_fails msg) b)
        = \<lparr>status = 500,
           json = [(''message'', JStr ''Failed to initiate call.''), (''error'', JStr msg)]\<rparr>)
   \<and> (b ''phoneNumber'' = None \<or> b ''phoneNumber'' = Some []
        \<or> b ''ngrokUrl'' = None \<or> b ''ngrokUrl'' = Some [] \<longrightarrow>
        initiate_call twilioPhoneNumber placed b
          = (\<lparr>status = 400,
              json = [(''message'', JStr ''Both phoneNumber and ngrokUrl are required.'')]\<rparr>, []))"
  by (cases placed) (auto simp: initiate_call_def as_value_def to_string_def Let_def)

text \<open>
  C5, instances: a body with both fields, for both outcomes; a body without
  \<^verbatim>\<open>ngrokUrl\<close>; and a body whose \<^verbatim>\<open>ngrokUrl\<close> is the empty string.
\<close>

theorem initiate_call_ngrokUrl_witness:
  "calls_placed (snd (initiate_call (Some ''+15005550006'') (Call_created ''CA0001'')
       [''phoneNumber'' \<mapsto> ''+15551230000'', ''ngrokUrl'' \<mapsto> ''https://example.test'']))
     = [\<lparr>url = ''https://example.test/voice'', to = ''+15551230000'',
         from_number = Some ''+15005550006''\<rparr>]
   \<and> fst (initiate_call (Some ''+15005550006'') (Call_created ''CA0001'')
       [''phoneNumber'' \<mapsto> ''+15551230000'', ''ngrokUrl'' \<mapsto> ''https://example.test''])
     = \<lparr>status = 200,
        json = [(''message'', JStr ''Call has been successfully initiated!''),
                (''callSid'', JStr ''CA0001'')]\<rparr>
   \<and> fst (initiate_call (Some ''+15005550006'') (Call_fails ''Authenticate'')
       [''phoneNumber'' \<mapsto> ''+15551230000'', ''ngrokUrl'' \<mapsto> ''https://example.test''])
     = \<lparr>status = 500,
        json = [(''message'', JStr ''Failed to initiate call.''), (''error'', JStr ''Authenticate'')]\<rparr>
   \<and> initiate_call (Some ''+15005550006'') (Call_created ''CA0001'')
       [''phoneNumber'' \<mapsto> ''+15551230000'']
     = (\<lparr>status = 400,
         json = [(''message'', JStr ''Both phoneNumber and ngrokUrl are required.'')]\<rparr>, [])
   \<and> initiate_call (Some ''+15005550006'') (Call_created ''CA0001'')
       [''phoneNumber'' \<mapsto> ''+15551230000'', ''ngrokUrl'' \<mapsto> '''']
     = (\<lparr>status = 400,
         json = [(''message'', JStr ''Both phoneNumber and ngrokUrl are required.'')]\<rparr>, [])"
proof -
  let ?b = "[''phoneNumber'' \<mapsto> ''+15551230000'', ''ngrokUrl'' \<mapsto> ''https://example.test'']"
  let ?b' = "[''phoneNumber'' \<mapsto> ''+15551230000'']"
  let ?b'' = "[''phoneNumber'' \<mapsto> ''+15551230000'', ''ngrokUrl'' \<mapsto> '''']"
  have h: "?b ''phoneNumber'' = Some ''+15551230000'' \<and> ''+15551230000'' \<noteq> []
      \<and> ?b ''ngrokUrl'' = Some ''https://example.test'' \<and> ''https://example.test'' \<noteq> []"
    by simp
  have h': "?b' ''phoneNumber'' = None \<or> ?b' ''phoneNumber'' = Some []
      \<or> ?b' ''ngrokUrl'' = None \<or> ?b' ''ngrokUrl'' = Some []"
    by simp
  have h'': "?b'' ''phoneNumber'' = None \<or> ?b'' ''phoneNumber'' = Some []
      \<or> ?b'' ''ngrokUrl'' = None \<or> ?b'' ''ngrokUrl'' = Some []"
    by simp
  note T = initiate_call_ngrokUrl [where b = ?b and p = "''+15551230000''" and u = "''https://example.test''"
      and twilioPhoneNumber = "Some ''+15005550006''" and placed = "Call_created ''CA0001''"
      and sid = "''CA0001''" and msg = "''Authenticate''", THEN conjunct1, THEN mp, OF h]
  note T' = initiate_call_ngrokUrl [where b = ?b' and twilioPhoneNumber = "Some ''+15005550006''"
      and placed = "Call_created ''CA0001''", THEN conjunct2, THEN mp, OF h']
  note T'' = initiate_call_ngrokUrl [where b = ?b'' and twilioPhoneNumber = "Some ''+15005550006''"
      and placed = "Call_created ''CA0001''", THEN conjunct2, THEN mp, OF h'']
  from T T' T'' show ?thesis
    by simp
qed

section \<open>The upsert\<close>

text \<open>
  A turn whose completion response reports \<^verbatim>\<open>isComplete\<close> issues exactly one
  \<^verbatim>\<open>pool.query\<close>, whether or not the \<^verbatim>\<open>twiml.say\<close> that follows it throws, with the
  statement text of line 117 and the values \<^verbatim>\<open>full_name\<close>, the webhook's \<^verbatim>\<open>To\<close>,
  \<^verbatim>\<open>address\<close> and \<^verbatim>\<open>health_condition\<close>, read from the data collected up to and including
  this turn.
\<close>

lemma completing_turn_query:
  assumes "completion_requests (events (voice e S b)) \<noteq> []"
    and "completion e = Parsed rd" and "read_response rd = Inr r" and "truthy (isComplete r)"
  shows "pool_queries (events (voice e S b)) =
     [(query,
       [js_get (object_assign (known_data S (to_string (b ''CallSid''))) (extractedData r)) ''full_name'',
        as_value (b ''To''),
        js_get (object_assign (known_data S (to_string (b ''CallSid''))) (extractedData r)) ''address'',
        js_get (object_assign (known_data S (to_string (b ''CallSid''))) (extractedData r)) ''health_condition''])]"
proof -
  from assms(1) have nb: "store_get S (to_string (b ''CallSid'')) \<noteq> Builtin"
    by (auto simp: voice_requests split: if_splits)
  show ?thesis
  proof (cases "twiml_say e (responseText r)")
    case (Inr said)
    from voice_completes [where S = S and b = b and e = e and rd = rd and r = r and said = said,
        OF nb assms(2-4) Inr]
    show ?thesis
      by (simp add: pool_queries_append savePatientData_calls recorded_def entered_def)
  next
    case (Inl err)
    from voice_say_throws [where S = S and b = b and e = e and rd = rd and r = r and err = err,
        OF nb assms(2-4) Inl]
    show ?thesis
      by (simp add: pool_queries_append savePatientData_calls recorded_def entered_def)
  qed
qed

text \<open>
  C1 (the code departs from it). The claim: the completing turn issues one upsert that
  binds \<^verbatim>\<open>full_name\<close>, \<^verbatim>\<open>phone_number\<close>, \<^verbatim>\<open>address\<close> and \<^verbatim>\<open>health_condition\<close>. The one
  query of such a turn carries the four values, but in the text of its statement the
  fourth expression of the \<^verbatim>\<open>VALUES\<close> list is \<^verbatim>\<open>.env$4\<close>, not the parameter \<^verbatim>\<open>$4\<close>: the
  statement is not the upsert of the claim.
\<close>

theorem upsert_statement_text:
  "pool_queries (events (voice
        \<lparr>JSON_stringify = (\<lambda>d. ''{}''),
         completion = Parsed (JObj [(''responseText'', JStr ''Thank you for answering.''),
                                    (''extractedData'', JObj [(''health_condition'', JStr ''fever'')]),
                                    (''isComplete'', JBool True)]),
         db = Db_ok, twiml_say = (\<lambda>v. Inr [Say v]), gather_say = (\<lambda>v. Inr [Say v])\<rparr>
        [''CA1'' \<mapsto> \<lparr>history = [],
                         collectedData = \<lparr>props = [(''full_name'', JStr ''Asha''),
                                                      (''address'', JStr ''12 Hill Road'')],
                                             proto = Object_prototype\<rparr>\<rparr>]
        [''CallSid'' \<mapsto> ''CA1'', ''SpeechResult'' \<mapsto> ''fever'', ''To'' \<mapsto> ''+15551230000'']))
     = [(query, [JStr ''Asha'', JStr ''+15551230000'', JStr ''12 Hill Road'', JStr ''fever''])]
   \<and> values_clause query = [''$1'', ''$2'', ''$3'', ''.env$4'']"
  by (simp add: run_defs savePatientData_def js_get_def values_clause_def)
    (simp add: query_def)


section \<open>Merging extracted data\<close>

text \<open>
  \<^verbatim>\<open>Object.assign\<close> never removes an own property of its target and keeps the order of
  those it finds. When the source has no key named \<^verbatim>\<open>__proto__\<close> it is a plain
  overwrite, key by key, and doing it twice is the same as doing it once.
\<close>

lemma update_absent:
  "k \<notin> fst ` set al \<Longrightarrow> AList.update k v al = al @ [(k, v)]"
  by (induction al) auto

lemma js_set_plain:
  "k \<noteq> ''__proto__'' \<Longrightarrow> js_set obj k v = obj\<lparr>props := AList.update k v (props obj)\<rparr>"
  by (simp add: js_set_def update_absent)

lemma assign_all_plain:
  "''__proto__'' \<notin> fst ` set ps \<Longrightarrow>
     foldl (\<lambda>obj (k, v). js_set obj k v) obj ps =
     obj\<lparr>props := foldl (\<lambda>al (k, v). AList.update k v al) (props obj) ps\<rparr>"
proof (induction ps arbitrary: obj)
  case Nil
  show ?case by simp
next
  case (Cons p ps)
  obtain k v where p: "p = (k, v)" by (cases p)
  with Cons.prems have "k \<noteq> ''__proto__''" "''__proto__'' \<notin> fst ` set ps"
    by auto
  with Cons.IH [of "js_set obj k v"] p show ?case
    by (simp add: js_set_plain)
qed

lemma update_swap_present:
  "k \<noteq> k' \<Longrightarrow> k \<in> fst ` set al \<Longrightarrow>
     AList.update k' v' (AList.update k v al) = AList.update k v (AList.update k' v' al)"
  by (induction al) auto

lemma keys_update_all:
  "fst ` set (foldl (\<lambda>al (k, v). AList.update k v al) al ps) = fst ` set al \<union> fst ` set ps"
proof (induction ps arbitrary: al)
  case Nil
  show ?case by simp
next
  case (Cons p ps)
  obtain k1 v1 where p: "p = (k1, v1)" by (cases p)
  from Cons.IH [of "AList.update k1 v1 al"] p show ?case
    by (simp add: dom_update)
qed

lemma update_all_overwrites:
  "k \<in> fst ` set ps \<Longrightarrow> k \<in> fst ` set al \<Longrightarrow>
     foldl (\<lambda>al (k, v). AList.update k v al) (AList.update k v al) ps =
     foldl (\<lambda>al (k, v). AList.update k v al) al ps"
proof (induction ps arbitrary: al)
  case Nil
  then show ?case by simp
next
  case (Cons p ps)
  obtain k1 v1 where p: "p = (k1, v1)" by (cases p)
  show ?case
  proof (cases "k1 = k")
    case True
    with p show ?thesis by simp
  next
    case False
    with Cons.prems p have "k \<in> fst ` set ps" by auto
    moreover have "k \<in> fst ` set (AList.update k1 v1 al)"
      using Cons.prems(2) by (simp add: dom_update)
    ultimately have "foldl (\<lambda>al (k, v). AList.update k v al) (AList.update k v (AList.update k1 v1 al)) ps =
        foldl (\<lambda>al (k, v). AList.update k v al) (AList.update k1 v1 al) ps"
      by (rule Cons.IH)
    with False Cons.prems(2) p show ?thesis
      by (simp add: update_swap_present)
  qed
qed

lemma update_all_commutes:
  "k \<notin> fst ` set ps \<Longrightarrow> fst ` set ps \<subseteq> fst ` set al \<Longrightarrow>
     foldl (\<lambda>al (k, v). AList.update k v al) (AList.update k v al) ps =
     AList.update k v (foldl (\<lambda>al (k, v). AList.update k v al) al ps)"
proof (induction ps arbitrary: al)
  case Nil
  then show ?case by simp
next
  case (Cons p ps)
  obtain k1 v1 where p: "p = (k1, v1)" by (cases p)
  with Cons.prems have k1: "k1 \<noteq> k" "k1 \<in> fst ` set al" and rest: "k \<notin> fst ` set ps"
    "fst ` set ps \<subseteq> fst ` set (AList.update k1 v1 al)"
    by (auto simp: dom_update)
  from k1 have "AList.update k1 v1 (AList.update k v al) = AList.update k v (AList.update k1 v1 al)"
    using update_swap_present [of k1 k al v v1] by simp
  with Cons.IH [OF rest] p show ?case by simp
qed

lemma update_all_twice:
  "foldl (\<lambda>al (k, v). AList.update k v al) (foldl (\<lambda>al (k, v). AList.update k v al) al ps) ps =
   foldl (\<lambda>al (k, v). AList.update k v al) al ps"
proof (induction ps rule: rev_induct)
  case Nil
  show ?case by simp
next
  case (snoc p qs)
  obtain k v where p: "p = (k, v)" by (cases p)
  let ?F = "foldl (\<lambda>al (k, v). AList.update k v al)"
  let ?B = "?F al qs"
  have keys: "fst ` set ?B = fst ` set al \<union> fst ` set qs"
    by (rule keys_update_all)
  have "?F (AList.update k v ?B) qs = AList.update k v ?B \<or> ?F (AList.update k v ?B) qs = ?B"
  proof (cases "k \<in> fst ` set qs")
    case True
    with keys have "?F (AList.update k v ?B) qs = ?F ?B qs"
      by (intro update_all_overwrites) auto
    with snoc.IH show ?thesis by simp
  next
    case False
    with keys have "?F (AList.update k v ?B) qs = AList.update k v (?F ?B qs)"
      by (intro update_all_commutes) auto
    with snoc.IH show ?thesis by simp
  qed
  then have "AList.update k v (?F (AList.update k v ?B) qs) = AList.update k v ?B"
    by auto
  with p show ?case by simp
qed

lemma object_assign_twice:
  assumes "''__proto__'' \<notin> fst ` set (own_enumerable source)"
  shows "object_assign (object_assign target source) source = object_assign target source"
  using assms by (simp add: object_assign_def assign_all_plain update_all_twice)

lemma js_set_keeps_keys:
  "\<exists>ks. map fst (props (js_set obj k v)) = map fst (props obj) @ ks"
  by (cases v) (auto simp: js_set_def update_keys)

lemma object_assign_keeps_keys:
  "\<exists>ks. map fst (props (object_assign target source)) = map fst (props target) @ ks"
proof -
  have "\<exists>ks. map fst (props (foldl (\<lambda>obj (k, v). js_set obj k v) obj ps)) = map fst (props obj) @ ks"
    for obj ps
  proof (induction ps arbitrary: obj)
    case Nil
    show ?case by simp
  next
    case (Cons p ps)
    obtain k v where p: "p = (k, v)" by (cases p)
    from js_set_keeps_keys obtain ks where "map fst (props (js_set obj k v)) = map fst (props obj) @ ks"
      by blast
    moreover from Cons.IH obtain ks' where
      "map fst (props (foldl (\<lambda>obj (k, v). js_set obj k v) (js_set obj k v) ps)) =
         map fst (props (js_set obj k v)) @ ks'"
      by blast
    ultimately show ?case using p by simp
  qed
  then show ?thesis by (simp add: object_assign_def)
qed

text \<open>
  C8 (the code departs from it). The claim: merging the same extraction twice is
  idempotent. For the extraction \<^verbatim>\<open>{"__proto__": null}\<close> the first merge writes no
  property but removes the prototype of \<^verbatim>\<open>collectedData\<close>; with the prototype gone the
  second merge finds no setter and creates an own property \<^verbatim>\<open>__proto__\<close>.
\<close>

theorem merge_proto_twice:
  "object_assign empty_object (JObj [(''__proto__'', JNull)])
     = \<lparr>props = [], proto = Null_prototype\<rparr>
   \<and> object_assign (object_assign empty_object (JObj [(''__proto__'', JNull)]))
        (JObj [(''__proto__'', JNull)])
     = \<lparr>props = [(''__proto__'', JNull)], proto = Null_prototype\<rparr>"
  by (simp add: object_assign_def js_set_def empty_object_def)

end
